theory Spec2Isabelle
  imports Main "HOL-Library.Word" "HOL-Library.Signed_Division"
begin

section \<open>Data model of \<open>include/mutex.h\<close>\<close>

text \<open>
  A thread identity (\<open>pthread_t\<close>) is a number; \<open>0\<close> is the value the constructor
  stores in \<open>owner_\<close> and \<open>BeforeUnlock\<close> stores again, so the code reads it as
  "no owner". Objects live at addresses: \<open>MutexLock\<close> and \<open>CondVar\<close> keep a pointer to
  their mutex, and every member function receives the address \<open>this\<close>. A member
  \<open>x_\<close> of class \<open>C\<close> is the field \<open>C_x\<close> of the record \<open>C\<close>.

  Clock readings and thresholds are \<open>int64_t\<close>: 64-bit words, read as signed numbers
  by \<open>sint\<close>. Their subtraction is the subtraction of words, which wraps around where
  the exact difference does not fit 64 bits; \<open>exact_diff a b\<close> says that it fits. The
  result codes of the OS (\<open>int\<close>) are only compared with \<open>0\<close> and are integers.
\<close>

type_synonym pthread_t = nat
type_synonym addr = nat
type_synonym int64_t = "64 word"

definition exact_diff :: "int64_t \<Rightarrow> int64_t \<Rightarrow> bool" where
  "exact_diff a b = (- (2 ^ 63) \<le> sint a - sint b \<and> sint a - sint b < 2 ^ 63)"

text \<open>
  Modelled from the spec: the pthread library is not part of the source tree. The OS
  primitive \<open>pthread_mutex_t\<close> is reduced to what the spec's glossary calls an
  error-checking exclusive lock: the identity of the thread that holds it, if any.
\<close>

type_synonym pthread_mutex_t = "pthread_t option"

record Mutex =
  Mutex_mu :: pthread_mutex_t
  Mutex_owner :: pthread_t
  Mutex_msg :: "string option"
  Mutex_msg_threshold :: int64_t
  Mutex_lock_time :: int64_t

text \<open>
  The lines the code writes. \<open>PthreadError label result\<close> is the line
  \<open>pthread <label>: <strerror(result)>\<close> on the diagnostic stream. \<open>WaitLock buf msg d\<close> and
  \<open>Locked buf msg d\<close> are the two lines of the instrumentation on standard output; \<open>d\<close> is
  the \<open>int64_t\<close> difference of clock readings in microseconds that the code divides by
  \<open>1000.0\<close> for printing.
\<close>

datatype line =
  PthreadError string int | WaitLock string string int64_t | Locked string string int64_t

record world =
  mutexes :: "addr \<Rightarrow> Mutex"
  stdout :: "line list"
  stderr :: "line list"

text \<open>
  A call returns a value, or ends the process (\<open>abort()\<close>), or leaves the calling thread
  suspended: \<open>Blocks\<close> is a call that does not return unless another thread acts.
  Each outcome carries the state the call leaves behind.
\<close>

datatype 'a outcome = Returns 'a world | Aborts world | Blocks world

fun and_then :: "'a outcome \<Rightarrow> ('a \<Rightarrow> world \<Rightarrow> 'b outcome) \<Rightarrow> 'b outcome" where
  "and_then (Returns x w) f = f x w"
| "and_then (Aborts w) f = Aborts w"
| "and_then (Blocks w) f = Blocks w"

text \<open>The state a call leaves behind, whatever its outcome, and whether it returned.\<close>

fun state_of :: "'a outcome \<Rightarrow> world" where
  "state_of (Returns x w) = w"
| "state_of (Aborts w) = w"
| "state_of (Blocks w) = w"

fun returned :: "'a outcome \<Rightarrow> bool" where
  "returned (Returns x w) = True"
| "returned (Aborts w) = False"
| "returned (Blocks w) = False"

definition update_mutex :: "addr \<Rightarrow> (Mutex \<Rightarrow> Mutex) \<Rightarrow> world \<Rightarrow> world" where
  "update_mutex a f w = w\<lparr>mutexes := (mutexes w)(a := f (mutexes w a))\<rparr>"

definition printf :: "line \<Rightarrow> world \<Rightarrow> world" where
  "printf l w = w\<lparr>stdout := stdout w @ [l]\<rparr>"

definition fprintf_stderr :: "line \<Rightarrow> world \<Rightarrow> world" where
  "fprintf_stderr l w = w\<lparr>stderr := stderr w @ [l]\<rparr>"

section \<open>The OS primitives\<close>

definition EPERM :: int where "EPERM = 1"
definition EINVAL :: int where "EINVAL = 22"
definition EDEADLK :: int where "EDEADLK = 35"
definition ETIMEDOUT :: int where "ETIMEDOUT = 110"

text \<open>
  Modelled from the spec: the pthread library is not part of the source tree. The
  functions below are the error-checking mode of the glossary (self-deadlock and
  wrong-owner unlock are reported as error codes), the lock that "blocks the calling
  thread until acquired" (spec, section 4.1) and the wait contract of section 4.3
  (release, suspend, reacquire before returning). Every call takes \<open>os_error\<close>, a
  failure the OS reports for reasons of its own (\<open>0\<close> for none); such a call leaves
  the primitive as it was. \<open>self\<close> is the calling thread.

  While a thread is suspended the other threads run. \<open>others\<close> is what they do to the
  state from the moment the caller is suspended to the moment it is woken: \<open>None\<close>
  when the caller is never woken. \<open>asleep\<close> is the state in which the caller is
  suspended. The caller takes the mutex only when it is free at the moment it is
  woken; \<open>result\<close> is what the call then returns.
\<close>

definition take_when_woken ::
  "int \<Rightarrow> pthread_t \<Rightarrow> addr \<Rightarrow> world option \<Rightarrow> world \<Rightarrow> int outcome" where
  "take_when_woken result self a woken asleep =
     (case woken of
        None \<Rightarrow> Blocks asleep
      | Some w' \<Rightarrow>
          if Mutex_mu (mutexes w' a) = None
          then Returns result (update_mutex a (\<lambda>m. m\<lparr>Mutex_mu := Some self\<rparr>) w')
          else Blocks w')"

text \<open>
  Modelled from the spec: \<open>pthread_mutex_lock\<close> of the absent pthread library, in
  error-checking mode. A free mutex is taken at once; a mutex the caller already holds
  gives \<open>EDEADLK\<close>; a mutex another thread holds suspends the caller until it is free.
\<close>

definition pthread_mutex_lock ::
  "int \<Rightarrow> (world \<Rightarrow> world option) \<Rightarrow> pthread_t \<Rightarrow> addr \<Rightarrow> world \<Rightarrow> int outcome" where
  "pthread_mutex_lock os_error others self a w =
     (if os_error \<noteq> 0 then Returns os_error w
      else case Mutex_mu (mutexes w a) of
             None \<Rightarrow> Returns 0 (update_mutex a (\<lambda>m. m\<lparr>Mutex_mu := Some self\<rparr>) w)
           | Some holder \<Rightarrow>
               if holder = self then Returns EDEADLK w
               else take_when_woken 0 self a (others w) w)"

text \<open>
  \<open>lock_granted others self a w w0\<close>: \<open>w0\<close> is the state in which a call of
  \<open>pthread_mutex_lock\<close> made in \<open>w\<close> finds the mutex free for the caller: \<open>w\<close> itself,
  or the state in which the caller is woken after another thread held the mutex.
\<close>

definition lock_granted ::
  "(world \<Rightarrow> world option) \<Rightarrow> pthread_t \<Rightarrow> addr \<Rightarrow> world \<Rightarrow> world \<Rightarrow> bool" where
  "lock_granted others self a w w0 =
     (Mutex_mu (mutexes w0 a) = None
      \<and> (w0 = w
           \<or> (Mutex_mu (mutexes w a) \<noteq> None \<and> Mutex_mu (mutexes w a) \<noteq> Some self
                \<and> others w = Some w0)))"

text \<open>
  Modelled from the spec: \<open>pthread_mutex_unlock\<close> of the absent pthread library, in
  error-checking mode: only the holder releases the mutex, any other caller gets
  \<open>EPERM\<close>.
\<close>

definition pthread_mutex_unlock :: "int \<Rightarrow> pthread_t \<Rightarrow> addr \<Rightarrow> world \<Rightarrow> int outcome" where
  "pthread_mutex_unlock os_error self a w =
     (if os_error \<noteq> 0 then Returns os_error w
      else if Mutex_mu (mutexes w a) = Some self
        then Returns 0 (update_mutex a (\<lambda>m. m\<lparr>Mutex_mu := None\<rparr>) w)
        else Returns EPERM w)"

text \<open>
  Modelled from the spec: \<open>pthread_equal\<close> of the absent pthread library; nonzero when
  the two identities are the same.
\<close>

definition pthread_equal :: "pthread_t \<Rightarrow> pthread_t \<Rightarrow> int" where
  "pthread_equal t1 t2 = (if t1 = t2 then 1 else 0)"

text \<open>
  Modelled from the spec: the release at the start of a wait of the absent pthread
  library (spec, section 4.3).
\<close>

definition cond_release :: "addr \<Rightarrow> world \<Rightarrow> world" where
  "cond_release a w = update_mutex a (\<lambda>m. m\<lparr>Mutex_mu := None\<rparr>) w"

text \<open>
  Modelled from the spec: \<open>pthread_cond_wait\<close> on an error-checking mutex. A caller
  that does not hold the mutex gets \<open>EPERM\<close>; otherwise the mutex is released, the
  caller sleeps, and the call returns \<open>0\<close> with the mutex held again.
\<close>

definition pthread_cond_wait ::
  "int \<Rightarrow> (world \<Rightarrow> world option) \<Rightarrow> pthread_t \<Rightarrow> addr \<Rightarrow> world \<Rightarrow> int outcome" where
  "pthread_cond_wait os_error others self a w =
     (if os_error \<noteq> 0 then Returns os_error w
      else if Mutex_mu (mutexes w a) \<noteq> Some self then Returns EPERM w
      else take_when_woken 0 self a (others (cond_release a w)) (cond_release a w))"

record timeval =
  tv_sec :: "64 word"
  tv_usec :: "64 word"

record timespec =
  ts_tv_sec :: "64 word"
  ts_tv_nsec :: "64 word"

text \<open>
  Modelled from the spec: \<open>pthread_cond_timedwait\<close>. As \<open>pthread_cond_wait\<close>, with a
  deadline: nanoseconds outside \<open>[0, 999999999]\<close> are refused with \<open>EINVAL\<close>, and
  the call returns \<open>0\<close> when \<open>signalled\<close> (a signal came before the deadline) and
  \<open>ETIMEDOUT\<close> otherwise. In both cases the mutex is held again on return; on
  \<open>EINVAL\<close> and \<open>EPERM\<close> the mutex is as it was.
\<close>

definition pthread_cond_timedwait ::
  "int \<Rightarrow> bool \<Rightarrow> (world \<Rightarrow> world option) \<Rightarrow> pthread_t \<Rightarrow> addr \<Rightarrow> timespec \<Rightarrow> world
     \<Rightarrow> int outcome" where
  "pthread_cond_timedwait os_error signalled others self a ts w =
     (if os_error \<noteq> 0 then Returns os_error w
      else if sint (ts_tv_nsec ts) < 0 \<or> 1000000000 \<le> sint (ts_tv_nsec ts) then Returns EINVAL w
      else if Mutex_mu (mutexes w a) \<noteq> Some self then Returns EPERM w
      else take_when_woken (if signalled then 0 else ETIMEDOUT) self a
             (others (cond_release a w)) (cond_release a w))"

section \<open>PthreadCall and Mutex\<close>

definition PthreadCall :: "string \<Rightarrow> int \<Rightarrow> world \<Rightarrow> unit outcome" where
  "PthreadCall label result w =
     (if result \<noteq> 0 then Aborts (fprintf_stderr (PthreadError label result) w)
      else Returns () w)"

text \<open>
  The constructor: the member initialisers, then four OS calls, each checked by
  \<open>PthreadCall\<close>. \<open>e1 \<dots> e4\<close> are the results of the four calls.
\<close>

definition Mutex_ctor :: "addr \<Rightarrow> int \<Rightarrow> int \<Rightarrow> int \<Rightarrow> int \<Rightarrow> world \<Rightarrow> unit outcome" where
  "Mutex_ctor this e1 e2 e3 e4 w =
     (let w0 = update_mutex this
                 (\<lambda>m. m\<lparr>Mutex_owner := 0, Mutex_msg := None, Mutex_msg_threshold := 0,
                        Mutex_lock_time := 0\<rparr>) w
      in and_then (PthreadCall ''init mutexattr'' e1 w0) (\<lambda>_ w1.
         and_then (PthreadCall ''set mutexattr'' e2 w1) (\<lambda>_ w2.
         and_then (PthreadCall ''init mutex'' e3
                     (if e3 = 0 then update_mutex this (\<lambda>m. m\<lparr>Mutex_mu := None\<rparr>) w2
                      else w2)) (\<lambda>_ w3.
         PthreadCall ''destroy mutexattr'' e4 w3))))"

text \<open>
  \<open>MUTEX_DEBUG\<close> is the macro that compiles the instrumentation in; every function takes
  it as its first argument. \<open>timer::get_micros()\<close> and \<open>timer::now_time_str\<close> come from
  \<open>timer.h\<close>: what each call reads is an argument of the function that makes the call
  (\<open>now\<close> below is the reading of \<open>get_micros\<close> in \<open>AfterLock\<close>).
\<close>

definition AfterLock ::
  "bool \<Rightarrow> pthread_t \<Rightarrow> addr \<Rightarrow> int64_t \<Rightarrow> string option \<Rightarrow> int64_t \<Rightarrow> world \<Rightarrow> world" where
  "AfterLock MUTEX_DEBUG self this now msg msg_threshold w =
     (let w1 = (if MUTEX_DEBUG
                then (let w' = update_mutex this
                                 (\<lambda>m. m\<lparr>Mutex_msg := msg, Mutex_msg_threshold := msg_threshold\<rparr>) w
                      in if Mutex_msg (mutexes w' this) \<noteq> None
                         then update_mutex this (\<lambda>m. m\<lparr>Mutex_lock_time := now\<rparr>) w'
                         else w')
                else w)
      in update_mutex this (\<lambda>m. m\<lparr>Mutex_owner := self\<rparr>) w1)"

text \<open>
  \<open>BeforeUnlock\<close> reads the clock twice: \<open>now1\<close> in the test, \<open>now2\<close> in the arguments of
  \<open>printf\<close>; \<open>buf\<close> is what \<open>now_time_str\<close> wrote. The test compares two \<open>int64_t\<close>
  values: the difference of words and the threshold, both read as signed.
\<close>

definition BeforeUnlock ::
  "bool \<Rightarrow> addr \<Rightarrow> int64_t \<Rightarrow> string \<Rightarrow> int64_t \<Rightarrow> world \<Rightarrow> world" where
  "BeforeUnlock MUTEX_DEBUG this now1 buf now2 w =
     (let w1 = (if MUTEX_DEBUG
                then (let m = mutexes w this;
                          w' = (case Mutex_msg m of
                                  Some label \<Rightarrow>
                                    if sint (now1 - Mutex_lock_time m) > sint (Mutex_msg_threshold m)
                                    then printf (Locked buf label (now2 - Mutex_lock_time m)) w
                                    else w
                                | None \<Rightarrow> w)
                      in update_mutex this (\<lambda>m. m\<lparr>Mutex_msg := None\<rparr>) w')
                else w)
      in update_mutex this (\<lambda>m. m\<lparr>Mutex_owner := 0\<rparr>) w1)"

text \<open>
  \<open>Lock\<close>: \<open>t_enter\<close> is the clock read on entry (line 48, read only when a label is
  given), \<open>os_error\<close> and \<open>others\<close> go to \<open>pthread_mutex_lock\<close>, \<open>now\<close> is the clock read
  in \<open>AfterLock\<close>, \<open>buf\<close> the time string of the diagnostic line. The local \<open>s\<close> exists
  only with \<open>MUTEX_DEBUG\<close>, where alone it is read. The test of line 53 compares two
  \<open>int64_t\<close> values: the difference of words and the threshold, both read as signed.
\<close>

definition Lock ::
  "bool \<Rightarrow> pthread_t \<Rightarrow> addr \<Rightarrow> int64_t \<Rightarrow> int \<Rightarrow> (world \<Rightarrow> world option) \<Rightarrow> int64_t
     \<Rightarrow> string \<Rightarrow> string option \<Rightarrow> int64_t \<Rightarrow> world \<Rightarrow> unit outcome" where
  "Lock MUTEX_DEBUG self this t_enter os_error others now buf msg msg_threshold w =
     (let s = (if msg \<noteq> None then t_enter else 0)
      in and_then (pthread_mutex_lock os_error others self this w) (\<lambda>result w1.
         and_then (PthreadCall ''mutex lock'' result w1) (\<lambda>_ w2.
           let w3 = AfterLock MUTEX_DEBUG self this now msg msg_threshold w2
           in Returns ()
                (if MUTEX_DEBUG
                 then (case msg of
                         Some label \<Rightarrow>
                           if sint (Mutex_lock_time (mutexes w3 this) - s) > sint msg_threshold
                           then printf (WaitLock buf label (Mutex_lock_time (mutexes w3 this) - s))
                                  w3
                           else w3
                       | None \<Rightarrow> w3)
                 else w3))))"

definition Lock_default_msg :: "string option" where
  "Lock_default_msg = None"

definition Lock_default_msg_threshold :: int64_t where
  "Lock_default_msg_threshold = 5000"

definition Unlock ::
  "bool \<Rightarrow> pthread_t \<Rightarrow> addr \<Rightarrow> int64_t \<Rightarrow> string \<Rightarrow> int64_t \<Rightarrow> int \<Rightarrow> world
     \<Rightarrow> unit outcome" where
  "Unlock MUTEX_DEBUG self this now1 buf now2 os_error w =
     and_then (pthread_mutex_unlock os_error self this
                 (BeforeUnlock MUTEX_DEBUG this now1 buf now2 w))
       (\<lambda>result w1. PthreadCall ''mutex unlock'' result w1)"

definition AssertHeld :: "pthread_t \<Rightarrow> addr \<Rightarrow> world \<Rightarrow> unit outcome" where
  "AssertHeld self this w =
     (if 0 = pthread_equal (Mutex_owner (mutexes w this)) self then Aborts w else Returns () w)"

section \<open>MutexLock\<close>

record MutexLock =
  MutexLock_mu :: addr

definition MutexLock_default_msg :: "string option" where
  "MutexLock_default_msg = None"

definition MutexLock_default_msg_threshold :: int64_t where
  "MutexLock_default_msg_threshold = 5000"

definition MutexLock_ctor ::
  "bool \<Rightarrow> pthread_t \<Rightarrow> addr \<Rightarrow> int64_t \<Rightarrow> int \<Rightarrow> (world \<Rightarrow> world option) \<Rightarrow> int64_t
     \<Rightarrow> string \<Rightarrow> string option \<Rightarrow> int64_t \<Rightarrow> world \<Rightarrow> MutexLock outcome" where
  "MutexLock_ctor MUTEX_DEBUG self mu t_enter os_error others now buf msg msg_threshold w =
     (let guard = \<lparr>MutexLock_mu = mu\<rparr>
      in and_then (Lock MUTEX_DEBUG self (MutexLock_mu guard) t_enter os_error others now buf
                     msg msg_threshold w)
           (\<lambda>_ w1. Returns guard w1))"

definition MutexLock_dtor ::
  "bool \<Rightarrow> pthread_t \<Rightarrow> MutexLock \<Rightarrow> int64_t \<Rightarrow> string \<Rightarrow> int64_t \<Rightarrow> int \<Rightarrow> world
     \<Rightarrow> unit outcome" where
  "MutexLock_dtor MUTEX_DEBUG self guard now1 buf now2 os_error w =
     Unlock MUTEX_DEBUG self (MutexLock_mu guard) now1 buf now2 os_error w"

text \<open>
  A block that declares a \<open>MutexLock\<close> as its first statement. The body leaves the block
  by reaching its end, by \<open>return\<close> or by an exception that unwinds it; the destructor
  of the guard runs on each of these. A body that aborts the process or never returns
  does not leave the block.
\<close>

datatype scope_exit = Falls_through | Early_return | Unwinds

definition MutexLock_scope ::
  "bool \<Rightarrow> pthread_t \<Rightarrow> addr \<Rightarrow> int64_t \<Rightarrow> int \<Rightarrow> (world \<Rightarrow> world option) \<Rightarrow> int64_t
     \<Rightarrow> string \<Rightarrow> string option \<Rightarrow> int64_t \<Rightarrow> (world \<Rightarrow> scope_exit outcome)
     \<Rightarrow> int64_t \<Rightarrow> string \<Rightarrow> int64_t \<Rightarrow> int \<Rightarrow> world \<Rightarrow> scope_exit outcome" where
  "MutexLock_scope MUTEX_DEBUG self mu t_enter os_error others now buf msg msg_threshold body
       now1 buf' now2 os_error' w =
     and_then (MutexLock_ctor MUTEX_DEBUG self mu t_enter os_error others now buf msg
                 msg_threshold w)
       (\<lambda>guard w1.
          and_then (body w1) (\<lambda>exit w2.
            and_then (MutexLock_dtor MUTEX_DEBUG self guard now1 buf' now2 os_error' w2)
              (\<lambda>_ w3. Returns exit w3)))"

section \<open>CondVar\<close>

record CondVar =
  CondVar_mu :: addr

text \<open>
  \<open>Wait\<close>: \<open>now1 buf now2\<close> are read by \<open>BeforeUnlock\<close>, \<open>os_error\<close> and \<open>others\<close> go to
  \<open>pthread_cond_wait\<close>, \<open>now\<close> is read by \<open>AfterLock\<close>.
\<close>

definition Wait ::
  "bool \<Rightarrow> pthread_t \<Rightarrow> CondVar \<Rightarrow> int64_t \<Rightarrow> string \<Rightarrow> int64_t \<Rightarrow> int
     \<Rightarrow> (world \<Rightarrow> world option) \<Rightarrow> int64_t \<Rightarrow> string option \<Rightarrow> world \<Rightarrow> unit outcome" where
  "Wait MUTEX_DEBUG self this now1 buf now2 os_error others now msg w =
     (let mu = CondVar_mu this;
          msg_threshold = Mutex_msg_threshold (mutexes w mu)
      in and_then (pthread_cond_wait os_error others self mu
                     (BeforeUnlock MUTEX_DEBUG mu now1 buf now2 w)) (\<lambda>result w1.
         and_then (PthreadCall ''condvar wait'' result w1) (\<lambda>_ w2.
           Returns () (AfterLock MUTEX_DEBUG self mu now msg msg_threshold w2))))"

text \<open>
  The C arithmetic of \<open>TimeWait\<close>: \<open>int\<close> is 32 bits wide, \<open>long long\<close>, \<open>int64_t\<close> and
  the fields of \<open>timeval\<close> and \<open>timespec\<close> are 64 bits wide; \<open>/\<close> and \<open>%\<close> truncate
  towards zero.
\<close>

definition c_div :: "int64_t \<Rightarrow> int64_t \<Rightarrow> int64_t" where
  "c_div a b = word_of_int (sint a sdiv sint b)"

definition c_mod :: "int64_t \<Rightarrow> int64_t \<Rightarrow> int64_t" where
  "c_mod a b = word_of_int (sint a smod sint b)"

definition TimeWait_usec :: "32 word \<Rightarrow> timeval \<Rightarrow> 64 word" where
  "TimeWait_usec timeout tv = tv_usec tv + scast timeout * 1000"

definition TimeWait_ts :: "32 word \<Rightarrow> timeval \<Rightarrow> timespec" where
  "TimeWait_ts timeout tv =
     (let usec = TimeWait_usec timeout tv
      in \<lparr>ts_tv_sec = tv_sec tv + c_div usec 1000000,
          ts_tv_nsec = c_mod usec 1000000 * 1000\<rparr>)"

text \<open>
  \<open>TimeWait\<close>: \<open>tv\<close> is what \<open>gettimeofday\<close> stored; \<open>signalled\<close> says whether a signal
  arrives before the deadline. The result of \<open>pthread_cond_timedwait\<close> is not passed to
  \<open>PthreadCall\<close>.
\<close>

definition TimeWait ::
  "bool \<Rightarrow> pthread_t \<Rightarrow> CondVar \<Rightarrow> timeval \<Rightarrow> int64_t \<Rightarrow> string \<Rightarrow> int64_t \<Rightarrow> int \<Rightarrow> bool
     \<Rightarrow> (world \<Rightarrow> world option) \<Rightarrow> int64_t \<Rightarrow> 32 word \<Rightarrow> string option \<Rightarrow> world
     \<Rightarrow> bool outcome" where
  "TimeWait MUTEX_DEBUG self this tv now1 buf now2 os_error signalled others now timeout msg w =
     (let mu = CondVar_mu this;
          ts = TimeWait_ts timeout tv;
          msg_threshold = Mutex_msg_threshold (mutexes w mu)
      in and_then (pthread_cond_timedwait os_error signalled others self mu ts
                     (BeforeUnlock MUTEX_DEBUG mu now1 buf now2 w)) (\<lambda>ret w1.
           Returns (ret = 0) (AfterLock MUTEX_DEBUG self mu now msg msg_threshold w1)))"

section \<open>The owner invariant\<close>

text \<open>
  The owner field is set (not \<open>0\<close>) exactly when the OS primitive is held, and then it
  names the holder. Between the two statements of an operation only one direction
  holds: a set owner field names the thread that holds the primitive.
\<close>

definition owner_iff_held :: "Mutex \<Rightarrow> bool" where
  "owner_iff_held m =
     (Mutex_mu m = (if Mutex_owner m = 0 then None else Some (Mutex_owner m)))"

definition owner_implies_held :: "Mutex \<Rightarrow> bool" where
  "owner_implies_held m = (Mutex_owner m = 0 \<or> Mutex_mu m = Some (Mutex_owner m))"

section \<open>Concrete states\<close>

text \<open>
  The state in which every address holds a mutex as its constructor leaves it and
  nothing has been written yet.
\<close>

definition fresh_mutex :: Mutex where
  "fresh_mutex =
     \<lparr>Mutex_mu = None, Mutex_owner = 0, Mutex_msg = None, Mutex_msg_threshold = 0,
      Mutex_lock_time = 0\<rparr>"

definition fresh_world :: world where
  "fresh_world = \<lparr>mutexes = (\<lambda>_. fresh_mutex), stdout = [], stderr = []\<rparr>"

text \<open>
  Thread 1 holds the mutex at address 0 since clock reading 1000, taken with the label
  \<open>cache\<close> and the threshold 5000. \<open>other_thread\<close> is thread 2, which takes the mutex
  at reading 50000 with the label \<open>index\<close> and the threshold 1 and releases it at
  reading 50001; if it cannot, nobody wakes the thread that waits.
\<close>

definition locked_world :: world where
  "locked_world =
     update_mutex 0
       (\<lambda>m. m\<lparr>Mutex_mu := Some 1, Mutex_owner := 1, Mutex_msg := Some ''cache'',
              Mutex_msg_threshold := 5000, Mutex_lock_time := 1000\<rparr>) fresh_world"

definition other_thread :: "world \<Rightarrow> world option" where
  "other_thread w =
     (case Lock True 2 0 50000 0 (\<lambda>_. None) 50000 ''12:01'' (Some ''index'') 1 w of
        Returns _ w1 \<Rightarrow>
          (case Unlock True 2 0 50001 ''12:01'' 50001 0 w1 of
             Returns _ w2 \<Rightarrow> Some w2
           | Aborts _ \<Rightarrow> None
           | Blocks _ \<Rightarrow> None)
      | Aborts _ \<Rightarrow> None
      | Blocks _ \<Rightarrow> None)"

text \<open>
  Thread 2 holds the mutex at address 0, taken without a label. \<open>holder_releases\<close> is
  thread 2 calling \<open>Unlock\<close> at clock reading 6000.
\<close>

definition contended_world :: world where
  "contended_world =
     update_mutex 0 (\<lambda>m. m\<lparr>Mutex_mu := Some 2, Mutex_owner := 2\<rparr>) fresh_world"

definition holder_releases :: "world \<Rightarrow> world option" where
  "holder_releases w =
     (case Unlock True 2 0 6000 ''11:59'' 6000 0 w of
        Returns _ w1 \<Rightarrow> Some w1
      | Aborts _ \<Rightarrow> None
      | Blocks _ \<Rightarrow> None)"

section \<open>Basic facts\<close>

lemma mutexes_update_mutex [simp]:
  "mutexes (update_mutex a f w) = (mutexes w)(a := f (mutexes w a))"
  by (simp add: update_mutex_def)

lemma stdout_update_mutex [simp]: "stdout (update_mutex a f w) = stdout w"
  by (simp add: update_mutex_def)

lemma stderr_update_mutex [simp]: "stderr (update_mutex a f w) = stderr w"
  by (simp add: update_mutex_def)

lemma update_mutex_twice [simp]:
  "update_mutex a f (update_mutex a g w) = update_mutex a (\<lambda>m. f (g m)) w"
  by (simp add: update_mutex_def)

lemma world_printf [simp]:
  "mutexes (printf l w) = mutexes w" "stdout (printf l w) = stdout w @ [l]"
  "stderr (printf l w) = stderr w"
  by (simp_all add: printf_def)

lemma world_fprintf_stderr [simp]:
  "mutexes (fprintf_stderr l w) = mutexes w" "stdout (fprintf_stderr l w) = stdout w"
  "stderr (fprintf_stderr l w) = stderr w @ [l]"
  by (simp_all add: fprintf_stderr_def)

lemma PthreadCall_zero [simp]: "PthreadCall label 0 w = Returns () w"
  by (simp add: PthreadCall_def)

lemma PthreadCall_nonzero:
  "result \<noteq> 0 \<Longrightarrow>
     PthreadCall label result w = Aborts (fprintf_stderr (PthreadError label result) w)"
  by (simp add: PthreadCall_def)

lemma EDEADLK_nonzero [simp]: "EDEADLK \<noteq> 0" by (simp add: EDEADLK_def)
lemma EPERM_nonzero [simp]: "EPERM \<noteq> 0" by (simp add: EPERM_def)
lemma EINVAL_nonzero [simp]: "EINVAL \<noteq> 0" by (simp add: EINVAL_def)
lemma ETIMEDOUT_nonzero [simp]: "ETIMEDOUT \<noteq> 0" by (simp add: ETIMEDOUT_def)

lemma exact_diff_sint: "exact_diff a b \<Longrightarrow> sint (a - b) = sint a - sint b"
  by (simp add: exact_diff_def sint_word_diff signed_take_bit_int_eq_self)

text \<open>The finish of \<open>Lock\<close> once the primitive is taken: \<open>AfterLock\<close>, then the wait line.\<close>

lemma Lock_unfold:
  "Lock dbg self this t_enter os_error others now buf msg thr w =
     (case pthread_mutex_lock os_error others self this w of
        Returns result w1 \<Rightarrow>
          if result \<noteq> 0 then Aborts (fprintf_stderr (PthreadError ''mutex lock'' result) w1)
          else Returns ()
            (let w3 = AfterLock dbg self this now msg thr w1
             in case msg of
                  Some label \<Rightarrow>
                    if dbg \<and> sint (Mutex_lock_time (mutexes w3 this) - t_enter) > sint thr
                    then printf (WaitLock buf label (Mutex_lock_time (mutexes w3 this) - t_enter))
                           w3
                    else w3
                | None \<Rightarrow> w3)
      | Aborts w1 \<Rightarrow> Aborts w1
      | Blocks w1 \<Rightarrow> Blocks w1)"
  by (simp add: Lock_def PthreadCall_def Let_def split: outcome.splits option.splits)

lemma pthread_mutex_lock_cases:
  "pthread_mutex_lock os_error others self this w =
     (if os_error \<noteq> 0 then Returns os_error w
      else if Mutex_mu (mutexes w this) = None
        then Returns 0 (update_mutex this (\<lambda>m. m\<lparr>Mutex_mu := Some self\<rparr>) w)
      else if Mutex_mu (mutexes w this) = Some self then Returns EDEADLK w
      else case others w of
             None \<Rightarrow> Blocks w
           | Some w0 \<Rightarrow>
               if Mutex_mu (mutexes w0 this) = None
               then Returns 0 (update_mutex this (\<lambda>m. m\<lparr>Mutex_mu := Some self\<rparr>) w0)
               else Blocks w0)"
  by (auto simp add: pthread_mutex_lock_def take_when_woken_def split: option.splits)

lemma pthread_mutex_lock_granted:
  "pthread_mutex_lock os_error others self this w = Returns 0 w1 \<longleftrightarrow>
     os_error = 0
     \<and> (\<exists>w0. lock_granted others self this w w0
            \<and> w1 = update_mutex this (\<lambda>m. m\<lparr>Mutex_mu := Some self\<rparr>) w0)"
  by (auto simp add: pthread_mutex_lock_cases lock_granted_def split: option.splits)

lemma pthread_mutex_lock_Returns:
  "pthread_mutex_lock os_error others self this w = Returns result w1 \<Longrightarrow>
     (result \<noteq> 0 \<and> w1 = w) \<or> (result = 0 \<and> Mutex_mu (mutexes w1 this) = Some self)"
  by (auto simp add: pthread_mutex_lock_cases split: if_splits option.splits)

lemma pthread_mutex_lock_not_Aborts:
  "pthread_mutex_lock os_error others self this w \<noteq> Aborts w1"
  by (simp add: pthread_mutex_lock_cases split: option.splits)

lemma Mutex_mu_AfterLock [simp]:
  "Mutex_mu (mutexes (AfterLock dbg self this now msg thr w) a) = Mutex_mu (mutexes w a)"
  by (simp add: AfterLock_def Let_def)

lemma Mutex_owner_AfterLock [simp]:
  "Mutex_owner (mutexes (AfterLock dbg self a now msg thr w) a) = self"
  by (simp add: AfterLock_def Let_def)

lemma stdout_AfterLock [simp]:
  "stdout (AfterLock dbg self this now msg thr w) = stdout w"
  by (simp add: AfterLock_def Let_def)

lemma stderr_AfterLock [simp]:
  "stderr (AfterLock dbg self this now msg thr w) = stderr w"
  by (simp add: AfterLock_def Let_def)

lemma Lock_Returns_OS:
  "Lock dbg self this t_enter os_error others now buf msg thr w = Returns x w' \<Longrightarrow>
     \<exists>w1. pthread_mutex_lock os_error others self this w = Returns 0 w1"
  by (auto simp add: Lock_unfold split: outcome.splits if_splits)

lemma Lock_Returns_held:
  "Lock dbg self this t_enter os_error others now buf msg thr w = Returns x w' \<Longrightarrow>
     Mutex_mu (mutexes w' this) = Some self"
  by (auto simp add: Lock_unfold Let_def dest: pthread_mutex_lock_Returns
        split: outcome.splits if_splits option.splits)

lemma Lock_Returns_owner:
  "Lock dbg self this t_enter os_error others now buf msg thr w = Returns x w' \<Longrightarrow>
     Mutex_owner (mutexes w' this) = self"
  by (auto simp add: Lock_unfold Let_def split: outcome.splits if_splits option.splits)

lemma Lock_held_by_self:
  "Mutex_mu (mutexes w this) = Some self \<Longrightarrow>
     Lock dbg self this t_enter os_error others now buf msg thr w =
       Aborts (fprintf_stderr
                 (PthreadError ''mutex lock'' (if os_error \<noteq> 0 then os_error else EDEADLK)) w)"
  by (simp add: Lock_unfold pthread_mutex_lock_cases)

section \<open>Lock and the results of the OS\<close>

text \<open>
  C3. \<open>Lock\<close> never hands an error back. Whatever nonzero result
  \<open>pthread_mutex_lock\<close> gives, the process aborts with the line that names
  \<open>mutex lock\<close> and the result. A thread that already holds the mutex gets such a
  result (\<open>EDEADLK\<close> when the OS has no failure of its own). \<open>Lock\<close> returns only when
  the OS call returned \<open>0\<close> and took the mutex (at once when it was free, after the
  caller was suspended when another thread held it), and once it has returned, every
  further \<open>Lock\<close> by the same thread on the state it left aborts: the second lock
  is never granted.
\<close>

theorem Lock_aborts_on_every_OS_error:
  "(\<forall>result w1.
      pthread_mutex_lock os_error others self this w = Returns result w1 \<and> result \<noteq> 0 \<longrightarrow>
      Lock dbg self this t_enter os_error others now buf msg thr w =
        Aborts (fprintf_stderr (PthreadError ''mutex lock'' result) w1))
   \<and> (Mutex_mu (mutexes w this) = Some self \<longrightarrow>
        Lock dbg self this t_enter os_error others now buf msg thr w =
          Aborts (fprintf_stderr
                    (PthreadError ''mutex lock'' (if os_error \<noteq> 0 then os_error else EDEADLK)) w))
   \<and> (\<forall>x w'. Lock dbg self this t_enter os_error others now buf msg thr w = Returns x w' \<longrightarrow>
        (\<exists>w0. lock_granted others self this w w0
           \<and> pthread_mutex_lock os_error others self this w =
               Returns 0 (update_mutex this (\<lambda>m. m\<lparr>Mutex_mu := Some self\<rparr>) w0))
        \<and> (Mutex_mu (mutexes w this) = None \<longrightarrow>
             pthread_mutex_lock os_error others self this w =
               Returns 0 (update_mutex this (\<lambda>m. m\<lparr>Mutex_mu := Some self\<rparr>) w))
        \<and> (\<forall>dbg' t_enter' os_error' others' now' buf' msg' thr'.
              Lock dbg' self this t_enter' os_error' others' now' buf' msg' thr' w' =
                Aborts (fprintf_stderr
                          (PthreadError ''mutex lock''
                             (if os_error' \<noteq> 0 then os_error' else EDEADLK)) w')))"
proof (intro conjI allI impI)
  fix result w1
  assume "pthread_mutex_lock os_error others self this w = Returns result w1 \<and> result \<noteq> 0"
  then show "Lock dbg self this t_enter os_error others now buf msg thr w =
      Aborts (fprintf_stderr (PthreadError ''mutex lock'' result) w1)"
    by (simp add: Lock_unfold)
next
  assume "Mutex_mu (mutexes w this) = Some self"
  then show "Lock dbg self this t_enter os_error others now buf msg thr w =
      Aborts (fprintf_stderr
                (PthreadError ''mutex lock'' (if os_error \<noteq> 0 then os_error else EDEADLK)) w)"
    by (rule Lock_held_by_self)
next
  fix x w'
  assume r: "Lock dbg self this t_enter os_error others now buf msg thr w = Returns x w'"
  from Lock_Returns_OS [OF r] obtain w1
    where os: "pthread_mutex_lock os_error others self this w = Returns 0 w1"
    by blast
  then show "\<exists>w0. lock_granted others self this w w0
           \<and> pthread_mutex_lock os_error others self this w =
               Returns 0 (update_mutex this (\<lambda>m. m\<lparr>Mutex_mu := Some self\<rparr>) w0)"
    by (auto simp add: pthread_mutex_lock_granted)
  {
    assume "Mutex_mu (mutexes w this) = None"
    with os show "pthread_mutex_lock os_error others self this w =
               Returns 0 (update_mutex this (\<lambda>m. m\<lparr>Mutex_mu := Some self\<rparr>) w)"
      by (simp add: pthread_mutex_lock_cases split: if_splits)
  }
  fix dbg' t_enter' os_error' others' now' buf' msg' thr'
  from Lock_Returns_held [OF r]
  show "Lock dbg' self this t_enter' os_error' others' now' buf' msg' thr' w' =
      Aborts (fprintf_stderr
                (PthreadError ''mutex lock'' (if os_error' \<noteq> 0 then os_error' else EDEADLK)) w')"
    by (rule Lock_held_by_self)
qed

lemma Unlock_unfold:
  "Unlock dbg self this now1 buf now2 os_error w =
     (let w1 = BeforeUnlock dbg this now1 buf now2 w
      in if os_error \<noteq> 0
         then Aborts (fprintf_stderr (PthreadError ''mutex unlock'' os_error) w1)
         else if Mutex_mu (mutexes w1 this) = Some self
         then Returns () (update_mutex this (\<lambda>m. m\<lparr>Mutex_mu := None\<rparr>) w1)
         else Aborts (fprintf_stderr (PthreadError ''mutex unlock'' EPERM) w1))"
  by (simp add: Unlock_def pthread_mutex_unlock_def PthreadCall_def Let_def)

lemma Mutex_mu_BeforeUnlock [simp]:
  "Mutex_mu (mutexes (BeforeUnlock dbg this now1 buf now2 w) a) = Mutex_mu (mutexes w a)"
  by (simp add: BeforeUnlock_def Let_def split: option.splits)

lemma Mutex_owner_BeforeUnlock [simp]:
  "Mutex_owner (mutexes (BeforeUnlock dbg this now1 buf now2 w) this) = 0"
  by (simp add: BeforeUnlock_def Let_def split: option.splits)

lemma stderr_BeforeUnlock [simp]:
  "stderr (BeforeUnlock dbg this now1 buf now2 w) = stderr w"
  by (simp add: BeforeUnlock_def Let_def split: option.splits)

lemma Mutex_mu_contended_world: "Mutex_mu (mutexes contended_world 0) = Some 2"
  by (simp add: contended_world_def)

lemma holder_releases_contended:
  "\<exists>w0. holder_releases contended_world = Some w0 \<and> Mutex_mu (mutexes w0 0) = None
     \<and> stdout w0 = []"
  by (simp add: holder_releases_def contended_world_def Unlock_unfold Let_def BeforeUnlock_def
        fresh_world_def fresh_mutex_def)

theorem Lock_aborts_on_every_OS_error_witness:
  "Mutex_mu (mutexes (update_mutex 0 (\<lambda>m. m\<lparr>Mutex_mu := Some 1\<rparr>) fresh_world) 0) = Some 1
   \<and> Lock True 1 0 100 0 Some 200 ''12:00'' (Some ''cache'') 5000
        (update_mutex 0 (\<lambda>m. m\<lparr>Mutex_mu := Some 1\<rparr>) fresh_world) =
      Aborts (fprintf_stderr (PthreadError ''mutex lock'' 35)
                (update_mutex 0 (\<lambda>m. m\<lparr>Mutex_mu := Some 1\<rparr>) fresh_world))
   \<and> pthread_mutex_lock 11 Some 1 0 fresh_world = Returns 11 fresh_world
   \<and> Lock True 1 0 100 11 Some 200 ''12:00'' (Some ''cache'') 5000 fresh_world =
      Aborts (fprintf_stderr (PthreadError ''mutex lock'' 11) fresh_world)
   \<and> (\<exists>w'. Lock True 1 0 100 0 Some 200 ''12:00'' (Some ''cache'') 5000 fresh_world = Returns () w'
         \<and> Lock False 1 0 0 0 Some 0 [] None 5000 w' =
             Aborts (fprintf_stderr (PthreadError ''mutex lock'' 35) w'))
   \<and> (\<exists>w'. Lock True 1 0 100 0 holder_releases 7000 ''12:00'' (Some ''cache'') 5000
              contended_world = Returns () w'
         \<and> Lock False 1 0 0 0 Some 0 [] None 5000 w' =
             Aborts (fprintf_stderr (PthreadError ''mutex lock'' 35) w'))"
proof -
  let ?held = "update_mutex 0 (\<lambda>m. m\<lparr>Mutex_mu := Some 1\<rparr>) fresh_world"
  note inst = Lock_aborts_on_every_OS_error
               [of _ _ 1 0 _ True 100 _ "''12:00''" "Some ''cache''" 5000]
  have held: "Mutex_mu (mutexes ?held 0) = Some 1"
    by simp
  have a: "Lock True 1 0 100 0 Some 200 ''12:00'' (Some ''cache'') 5000 ?held =
      Aborts (fprintf_stderr (PthreadError ''mutex lock'' 35) ?held)"
    using inst [of 0 Some ?held 200, THEN conjunct2, THEN conjunct1, rule_format, OF held]
    by (simp add: EDEADLK_def)
  have os: "pthread_mutex_lock 11 Some 1 0 fresh_world = Returns 11 fresh_world \<and> (11::int) \<noteq> 0"
    by (simp add: pthread_mutex_lock_def)
  have b: "Lock True 1 0 100 11 Some 200 ''12:00'' (Some ''cache'') 5000 fresh_world =
      Aborts (fprintf_stderr (PthreadError ''mutex lock'' 11) fresh_world)"
    by (rule inst [of 11 Some fresh_world 200, THEN conjunct1, rule_format, OF os])
  obtain w' where
    ret: "Lock True 1 0 100 0 Some 200 ''12:00'' (Some ''cache'') 5000 fresh_world = Returns () w'"
    by (simp add: Lock_unfold pthread_mutex_lock_cases fresh_world_def fresh_mutex_def)
  have c: "Lock False 1 0 0 0 Some 0 [] None 5000 w' =
             Aborts (fprintf_stderr (PthreadError ''mutex lock'' 35) w')"
    using inst [of 0 Some fresh_world 200, THEN conjunct2, THEN conjunct2, rule_format, OF ret,
               THEN conjunct2, THEN conjunct2, rule_format, of False 0 0 Some 0 "[]" None 5000]
    by (simp add: EDEADLK_def)
  from holder_releases_contended obtain w0
    where rel: "holder_releases contended_world = Some w0" "Mutex_mu (mutexes w0 0) = None"
    by blast
  obtain w'' where
    ret': "Lock True 1 0 100 0 holder_releases 7000 ''12:00'' (Some ''cache'') 5000
             contended_world = Returns () w''"
    by (simp add: Lock_unfold pthread_mutex_lock_cases rel Mutex_mu_contended_world)
  have d: "Lock False 1 0 0 0 Some 0 [] None 5000 w'' =
             Aborts (fprintf_stderr (PthreadError ''mutex lock'' 35) w'')"
    using inst [of 0 holder_releases contended_world 7000, THEN conjunct2, THEN conjunct2,
               rule_format, OF ret', THEN conjunct2, THEN conjunct2, rule_format,
               of False 0 0 Some 0 "[]" None 5000]
    by (simp add: EDEADLK_def)
  from held a os b ret c ret' d show ?thesis by blast
qed

lemma Mutex_ctor_Returns:
  "Mutex_ctor this e1 e2 e3 e4 w0 = Returns x w \<Longrightarrow>
     mutexes w this = (mutexes w0 this)\<lparr>Mutex_mu := None, Mutex_owner := 0, Mutex_msg := None,
        Mutex_msg_threshold := 0, Mutex_lock_time := 0\<rparr>"
  by (auto simp add: Mutex_ctor_def PthreadCall_def Let_def split: if_splits)

section \<open>AssertHeld\<close>

text \<open>
  C4. \<open>AssertHeld\<close> aborts exactly when the calling thread is not the stored owner, and
  otherwise returns; in both cases it leaves the state as it found it. In particular it
  aborts for a thread (with an identity other than \<open>0\<close>) on a mutex that has only been
  constructed, where the stored owner is still the initial \<open>0\<close>, and for any thread
  while the stored owner is another thread.
\<close>

theorem AssertHeld_aborts_iff_not_owner:
  "AssertHeld self this w =
     (if self = Mutex_owner (mutexes w this) then Returns () w else Aborts w)
   \<and> (AssertHeld self this w = Aborts w) = (self \<noteq> Mutex_owner (mutexes w this))
   \<and> (AssertHeld self this w = Returns () w) = (self = Mutex_owner (mutexes w this))
   \<and> (\<forall>e1 e2 e3 e4 w0 x. self \<noteq> 0 \<and> Mutex_ctor this e1 e2 e3 e4 w0 = Returns x w \<longrightarrow>
         AssertHeld self this w = Aborts w)
   \<and> (\<forall>other. Mutex_owner (mutexes w this) = other \<and> other \<noteq> self \<longrightarrow>
         AssertHeld self this w = Aborts w)"
proof -
  have eq: "AssertHeld self this w =
      (if self = Mutex_owner (mutexes w this) then Returns () w else Aborts w)"
    by (auto simp add: AssertHeld_def pthread_equal_def)
  have ctor: "AssertHeld self this w = Aborts w"
    if "self \<noteq> 0 \<and> Mutex_ctor this e1 e2 e3 e4 w0 = Returns x w" for e1 e2 e3 e4 w0 x
    using that Mutex_ctor_Returns [of this e1 e2 e3 e4 w0 x w] by (simp add: eq)
  show ?thesis
    using ctor by (auto simp add: eq)
qed

theorem AssertHeld_aborts_iff_not_owner_witness:
  "Mutex_ctor 0 0 0 0 0 fresh_world = Returns () fresh_world
   \<and> AssertHeld 1 0 fresh_world = Aborts fresh_world
   \<and> Mutex_owner (mutexes (update_mutex 0 (\<lambda>m. m\<lparr>Mutex_mu := Some 2, Mutex_owner := 2\<rparr>) fresh_world) 0) = 2
   \<and> AssertHeld 1 0 (update_mutex 0 (\<lambda>m. m\<lparr>Mutex_mu := Some 2, Mutex_owner := 2\<rparr>) fresh_world) =
       Aborts (update_mutex 0 (\<lambda>m. m\<lparr>Mutex_mu := Some 2, Mutex_owner := 2\<rparr>) fresh_world)
   \<and> AssertHeld 2 0 (update_mutex 0 (\<lambda>m. m\<lparr>Mutex_mu := Some 2, Mutex_owner := 2\<rparr>) fresh_world) =
       Returns () (update_mutex 0 (\<lambda>m. m\<lparr>Mutex_mu := Some 2, Mutex_owner := 2\<rparr>) fresh_world)"
proof -
  let ?held = "update_mutex 0 (\<lambda>m. m\<lparr>Mutex_mu := Some 2, Mutex_owner := 2\<rparr>) fresh_world"
  have ctor: "(1::nat) \<noteq> 0 \<and> Mutex_ctor 0 0 0 0 0 fresh_world = Returns () fresh_world"
    by (simp add: Mutex_ctor_def update_mutex_def fresh_world_def fresh_mutex_def fun_eq_iff)
  have a: "AssertHeld 1 0 fresh_world = Aborts fresh_world"
    by (rule AssertHeld_aborts_iff_not_owner [of 1 0 fresh_world, THEN conjunct2, THEN conjunct2,
               THEN conjunct2, THEN conjunct1, rule_format, OF ctor])
  have own: "Mutex_owner (mutexes ?held 0) = 2 \<and> (2::nat) \<noteq> 1"
    by simp
  have b: "AssertHeld 1 0 ?held = Aborts ?held"
    by (rule AssertHeld_aborts_iff_not_owner [of 1 0 ?held, THEN conjunct2, THEN conjunct2,
               THEN conjunct2, THEN conjunct2, rule_format, OF own])
  have c: "AssertHeld 2 0 ?held = Returns () ?held"
    using AssertHeld_aborts_iff_not_owner [of 2 0 ?held, THEN conjunct1] by simp
  from ctor a own b c show ?thesis by blast
qed

section \<open>Unlock by a thread that does not hold the mutex\<close>

text \<open>
  C10. When \<open>Unlock\<close> is called by a thread that does not hold the mutex, the process
  aborts with the line that names \<open>mutex unlock\<close>, and the state it aborts in has the
  owner field cleared although the OS primitive is as it was: \<open>BeforeUnlock\<close> has run
  before the OS reports the wrong owner.
\<close>

theorem Unlock_by_non_holder_clears_owner:
  "Mutex_mu (mutexes w this) \<noteq> Some self \<longrightarrow>
     (\<exists>w'. Unlock dbg self this now1 buf now2 os_error w = Aborts w'
        \<and> w' = fprintf_stderr
                 (PthreadError ''mutex unlock'' (if os_error \<noteq> 0 then os_error else EPERM))
                 (BeforeUnlock dbg this now1 buf now2 w)
        \<and> Mutex_owner (mutexes w' this) = 0
        \<and> Mutex_mu (mutexes w' this) = Mutex_mu (mutexes w this)
        \<and> stderr w' = stderr w @
             [PthreadError ''mutex unlock'' (if os_error \<noteq> 0 then os_error else EPERM)])"
  by (simp add: Unlock_unfold Let_def)

theorem Unlock_by_non_holder_clears_owner_witness:
  "Mutex_mu (mutexes (update_mutex 0 (\<lambda>m. m\<lparr>Mutex_mu := Some 2, Mutex_owner := 2\<rparr>) fresh_world) 0) \<noteq> Some 1
   \<and> Mutex_owner (mutexes (update_mutex 0 (\<lambda>m. m\<lparr>Mutex_mu := Some 2, Mutex_owner := 2\<rparr>) fresh_world) 0) = 2
   \<and> (\<exists>w'. Unlock False 1 0 0 [] 0 0
              (update_mutex 0 (\<lambda>m. m\<lparr>Mutex_mu := Some 2, Mutex_owner := 2\<rparr>) fresh_world) = Aborts w'
          \<and> Mutex_owner (mutexes w' 0) = 0
          \<and> Mutex_mu (mutexes w' 0) = Some 2
          \<and> stderr w' = [PthreadError ''mutex unlock'' 1])"
proof -
  let ?held = "update_mutex 0 (\<lambda>m. m\<lparr>Mutex_mu := Some 2, Mutex_owner := 2\<rparr>) fresh_world"
  have pre: "Mutex_mu (mutexes ?held 0) \<noteq> Some 1"
    by simp
  have own: "Mutex_owner (mutexes ?held 0) = 2"
    by simp
  from Unlock_by_non_holder_clears_owner [of ?held 0 1 False 0 "[]" 0 0, rule_format, OF pre]
  obtain w' where "Unlock False 1 0 0 [] 0 0 ?held = Aborts w'"
    and "Mutex_owner (mutexes w' 0) = 0"
    and "Mutex_mu (mutexes w' 0) = Mutex_mu (mutexes ?held 0)"
    and "stderr w' = stderr ?held @ [PthreadError ''mutex unlock'' (if (0::int) \<noteq> 0 then 0 else EPERM)]"
    by blast
  then have "Unlock False 1 0 0 [] 0 0 ?held = Aborts w' \<and> Mutex_owner (mutexes w' 0) = 0
      \<and> Mutex_mu (mutexes w' 0) = Some 2 \<and> stderr w' = [PthreadError ''mutex unlock'' 1]"
    by (simp add: EPERM_def fresh_world_def)
  with pre own show ?thesis by blast
qed

section \<open>Instrumentation\<close>

lemma AfterLock_no_debug:
  "AfterLock False self this now msg thr w = update_mutex this (\<lambda>m. m\<lparr>Mutex_owner := self\<rparr>) w"
  by (simp add: AfterLock_def)

lemma BeforeUnlock_no_debug:
  "BeforeUnlock False this now1 buf now2 w = update_mutex this (\<lambda>m. m\<lparr>Mutex_owner := 0\<rparr>) w"
  by (simp add: BeforeUnlock_def)

lemma Lock_no_debug:
  "Lock False self this t_enter os_error others now buf msg thr w =
     (if os_error \<noteq> 0 then Aborts (fprintf_stderr (PthreadError ''mutex lock'' os_error) w)
      else if Mutex_mu (mutexes w this) = None
        then Returns () (update_mutex this (\<lambda>m. m\<lparr>Mutex_mu := Some self, Mutex_owner := self\<rparr>) w)
      else if Mutex_mu (mutexes w this) = Some self
        then Aborts (fprintf_stderr (PthreadError ''mutex lock'' EDEADLK) w)
      else case others w of
             None \<Rightarrow> Blocks w
           | Some w0 \<Rightarrow>
               if Mutex_mu (mutexes w0 this) = None
               then Returns ()
                      (update_mutex this (\<lambda>m. m\<lparr>Mutex_mu := Some self, Mutex_owner := self\<rparr>) w0)
               else Blocks w0)"
  by (cases msg)
     (simp_all add: Lock_unfold pthread_mutex_lock_cases AfterLock_no_debug Let_def
        split: option.splits)

lemma Unlock_no_debug:
  "Unlock False self this now1 buf now2 os_error w =
     (if os_error \<noteq> 0
      then Aborts (fprintf_stderr (PthreadError ''mutex unlock'' os_error)
                     (update_mutex this (\<lambda>m. m\<lparr>Mutex_owner := 0\<rparr>) w))
      else if Mutex_mu (mutexes w this) = Some self
      then Returns () (update_mutex this (\<lambda>m. m\<lparr>Mutex_owner := 0, Mutex_mu := None\<rparr>) w)
      else Aborts (fprintf_stderr (PthreadError ''mutex unlock'' EPERM)
                     (update_mutex this (\<lambda>m. m\<lparr>Mutex_owner := 0\<rparr>) w)))"
  by (simp add: Unlock_unfold BeforeUnlock_no_debug Let_def)

text \<open>
  C8. With the instrumentation compiled out, \<open>Lock\<close> does the same whatever label and
  threshold it is given (and whatever the clock reads): the outcome and the state are
  equal, \<open>Lock\<close> writes nothing to standard output (what is there is what was there when
  it was called, or what the other threads left when the caller had to wait for the
  mutex), and when it returns the only fields of the mutex that differ from the state
  in which the mutex was granted, which is the state of the call when the mutex was
  free, are the OS primitive and the owner. \<open>Unlock\<close> likewise writes nothing to
  standard output, ignores the clock, and changes only the owner and the OS primitive.
\<close>

theorem Lock_Unlock_without_instrumentation:
  "Lock False self this t_enter os_error others now buf msg thr w =
     Lock False self this t_enter' os_error others now' buf' msg' thr' w
   \<and> stdout (state_of (Lock False self this t_enter os_error others now buf msg thr w)) =
       (if os_error = 0 \<and> Mutex_mu (mutexes w this) \<noteq> None
           \<and> Mutex_mu (mutexes w this) \<noteq> Some self
        then (case others w of None \<Rightarrow> stdout w | Some w0 \<Rightarrow> stdout w0)
        else stdout w)
   \<and> (\<forall>x w'. Lock False self this t_enter os_error others now buf msg thr w = Returns x w' \<longrightarrow>
         (\<exists>w0. lock_granted others self this w w0
            \<and> w' = update_mutex this (\<lambda>m. m\<lparr>Mutex_mu := Some self, Mutex_owner := self\<rparr>) w0)
         \<and> (Mutex_mu (mutexes w this) = None \<longrightarrow>
              w' = update_mutex this (\<lambda>m. m\<lparr>Mutex_mu := Some self, Mutex_owner := self\<rparr>) w))
   \<and> Unlock False self this now1 buf now2 os_error w =
       Unlock False self this now1' buf' now2' os_error w
   \<and> stdout (state_of (Unlock False self this now1 buf now2 os_error w)) = stdout w
   \<and> (\<forall>x w'. Unlock False self this now1 buf now2 os_error w = Returns x w' \<longrightarrow>
         w' = update_mutex this (\<lambda>m. m\<lparr>Mutex_owner := 0, Mutex_mu := None\<rparr>) w)"
proof (intro conjI allI impI)
  show "Lock False self this t_enter os_error others now buf msg thr w =
     Lock False self this t_enter' os_error others now' buf' msg' thr' w"
    by (simp only: Lock_no_debug)
  show "stdout (state_of (Lock False self this t_enter os_error others now buf msg thr w)) =
       (if os_error = 0 \<and> Mutex_mu (mutexes w this) \<noteq> None
           \<and> Mutex_mu (mutexes w this) \<noteq> Some self
        then (case others w of None \<Rightarrow> stdout w | Some w0 \<Rightarrow> stdout w0)
        else stdout w)"
    by (simp add: Lock_no_debug split: option.splits)
  show "Unlock False self this now1 buf now2 os_error w =
       Unlock False self this now1' buf' now2' os_error w"
    by (simp only: Unlock_no_debug)
  show "stdout (state_of (Unlock False self this now1 buf now2 os_error w)) = stdout w"
    by (simp add: Unlock_no_debug)
next
  fix x w'
  assume r: "Lock False self this t_enter os_error others now buf msg thr w = Returns x w'"
  then show "\<exists>w0. lock_granted others self this w w0
            \<and> w' = update_mutex this (\<lambda>m. m\<lparr>Mutex_mu := Some self, Mutex_owner := self\<rparr>) w0"
    by (auto simp add: Lock_no_debug lock_granted_def split: if_splits option.splits)
  {
    assume "Mutex_mu (mutexes w this) = None"
    with r show "w' = update_mutex this (\<lambda>m. m\<lparr>Mutex_mu := Some self, Mutex_owner := self\<rparr>) w"
      by (simp add: Lock_no_debug split: if_splits)
  }
next
  fix x w'
  assume "Unlock False self this now1 buf now2 os_error w = Returns x w'"
  then show "w' = update_mutex this (\<lambda>m. m\<lparr>Mutex_owner := 0, Mutex_mu := None\<rparr>) w"
    by (simp add: Unlock_no_debug split: if_splits)
qed

theorem Lock_Unlock_without_instrumentation_witness:
  "Lock False 1 0 10 0 Some 20 ''12:00'' (Some ''cache'') 1 fresh_world =
     Lock False 1 0 0 0 Some 0 [] None 5000 fresh_world
   \<and> Lock False 1 0 10 0 Some 20 ''12:00'' (Some ''cache'') 1 fresh_world =
       Returns () (update_mutex 0 (\<lambda>m. m\<lparr>Mutex_mu := Some 1, Mutex_owner := 1\<rparr>) fresh_world)
   \<and> stdout (state_of (Lock False 1 0 10 0 Some 20 ''12:00'' (Some ''cache'') 1 fresh_world)) = []
   \<and> Unlock False 1 0 30 ''12:01'' 40 0
        (update_mutex 0 (\<lambda>m. m\<lparr>Mutex_mu := Some 1, Mutex_owner := 1\<rparr>) fresh_world) =
       Returns () (update_mutex 0 (\<lambda>m. m\<lparr>Mutex_owner := 0, Mutex_mu := None\<rparr>)
         (update_mutex 0 (\<lambda>m. m\<lparr>Mutex_mu := Some 1, Mutex_owner := 1\<rparr>) fresh_world))"
proof -
  let ?held = "update_mutex 0 (\<lambda>m. m\<lparr>Mutex_mu := Some 1, Mutex_owner := 1\<rparr>) fresh_world"
  note lock = Lock_Unlock_without_instrumentation
                [of 1 0 10 0 Some 20 "''12:00''" "Some ''cache''" 1 fresh_world 0 0 "[]" None 5000]
  note unlock = Lock_Unlock_without_instrumentation
                [of 1 0 10 0 Some 20 "''12:01''" "Some ''cache''" 1 ?held 0 0 "[]" None 5000 30 40]
  have free: "Mutex_mu (mutexes fresh_world 0) = None"
    by (simp add: fresh_world_def fresh_mutex_def)
  obtain w' where
    ret: "Lock False 1 0 10 0 Some 20 ''12:00'' (Some ''cache'') 1 fresh_world = Returns () w'"
    by (simp add: Lock_no_debug free)
  obtain w'' where ret': "Unlock False 1 0 30 ''12:01'' 40 0 ?held = Returns () w''"
    by (simp add: Unlock_no_debug)
  have a: "Lock False 1 0 10 0 Some 20 ''12:00'' (Some ''cache'') 1 fresh_world =
     Lock False 1 0 0 0 Some 0 [] None 5000 fresh_world"
    by (rule lock [THEN conjunct1])
  have b: "stdout (state_of (Lock False 1 0 10 0 Some 20 ''12:00'' (Some ''cache'') 1 fresh_world)) =
      []"
    using lock [THEN conjunct2, THEN conjunct1] free by (simp add: fresh_world_def)
  have c: "w' = ?held"
    by (rule lock [THEN conjunct2, THEN conjunct2, THEN conjunct1, rule_format, OF ret,
                   THEN conjunct2, rule_format, OF free])
  have d: "w'' = update_mutex 0 (\<lambda>m. m\<lparr>Mutex_owner := 0, Mutex_mu := None\<rparr>) ?held"
    by (rule unlock [THEN conjunct2, THEN conjunct2, THEN conjunct2, THEN conjunct2,
                     THEN conjunct2, rule_format, OF ret'])
  from a b c d ret ret' show ?thesis by simp
qed

lemma Mutex_lock_time_AfterLock_label:
  "Mutex_lock_time (mutexes (AfterLock True self this now (Some label) thr w) this) = now"
  by (simp add: AfterLock_def Let_def)

lemma Lock_debug_label:
  "Lock True self this t_enter os_error others now buf (Some label) thr w =
     (case pthread_mutex_lock os_error others self this w of
        Returns result w1 \<Rightarrow>
          if result \<noteq> 0 then Aborts (fprintf_stderr (PthreadError ''mutex lock'' result) w1)
          else Returns ()
                 (let w3 = AfterLock True self this now (Some label) thr w1
                  in if sint (now - t_enter) > sint thr
                     then printf (WaitLock buf label (now - t_enter)) w3
                     else w3)
      | Aborts w1 \<Rightarrow> Aborts w1
      | Blocks w1 \<Rightarrow> Blocks w1)"
  by (simp add: Lock_unfold Let_def Mutex_lock_time_AfterLock_label split: outcome.splits)

lemma Lock_debug_label_Returns:
  "Lock True self this t_enter os_error others now buf (Some label) thr w = Returns x w' \<longleftrightarrow>
     os_error = 0
     \<and> (\<exists>w0. lock_granted others self this w w0
            \<and> w' = (let w3 = AfterLock True self this now (Some label) thr
                               (update_mutex this (\<lambda>m. m\<lparr>Mutex_mu := Some self\<rparr>) w0)
                      in if sint (now - t_enter) > sint thr
                         then printf (WaitLock buf label (now - t_enter)) w3
                         else w3))"
proof
  assume r: "Lock True self this t_enter os_error others now buf (Some label) thr w = Returns x w'"
  from Lock_Returns_OS [OF r] obtain w1
    where os: "pthread_mutex_lock os_error others self this w = Returns 0 w1"
    by blast
  with r have w': "w' = (let w3 = AfterLock True self this now (Some label) thr w1
                      in if sint (now - t_enter) > sint thr
                         then printf (WaitLock buf label (now - t_enter)) w3
                         else w3)"
    by (simp add: Lock_debug_label)
  from os w' show "os_error = 0
     \<and> (\<exists>w0. lock_granted others self this w w0
            \<and> w' = (let w3 = AfterLock True self this now (Some label) thr
                               (update_mutex this (\<lambda>m. m\<lparr>Mutex_mu := Some self\<rparr>) w0)
                      in if sint (now - t_enter) > sint thr
                         then printf (WaitLock buf label (now - t_enter)) w3
                         else w3))"
    by (auto simp add: pthread_mutex_lock_granted)
next
  assume "os_error = 0
     \<and> (\<exists>w0. lock_granted others self this w w0
            \<and> w' = (let w3 = AfterLock True self this now (Some label) thr
                               (update_mutex this (\<lambda>m. m\<lparr>Mutex_mu := Some self\<rparr>) w0)
                      in if sint (now - t_enter) > sint thr
                         then printf (WaitLock buf label (now - t_enter)) w3
                         else w3))"
  then obtain w0 where g: "os_error = 0" "lock_granted others self this w w0"
    and w': "w' = (let w3 = AfterLock True self this now (Some label) thr
                               (update_mutex this (\<lambda>m. m\<lparr>Mutex_mu := Some self\<rparr>) w0)
                      in if sint (now - t_enter) > sint thr
                         then printf (WaitLock buf label (now - t_enter)) w3
                         else w3)"
    by blast
  from g have "pthread_mutex_lock os_error others self this w =
      Returns 0 (update_mutex this (\<lambda>m. m\<lparr>Mutex_mu := Some self\<rparr>) w0)"
    using pthread_mutex_lock_granted by blast
  then show "Lock True self this t_enter os_error others now buf (Some label) thr w = Returns x w'"
    by (simp add: Lock_debug_label w')
qed

lemma lock_granted_free:
  "Mutex_mu (mutexes w this) = None \<Longrightarrow> lock_granted others self this w w0 \<longleftrightarrow> w0 = w"
  by (auto simp add: lock_granted_def)

text \<open>
  C9. With the instrumentation compiled in and a label given: \<open>t_enter\<close> is the clock as
  \<open>Lock\<close> is entered, \<open>now\<close> the clock read once the mutex has been taken. \<open>Lock\<close>
  returns whenever the OS call is granted the mutex, at once on a free mutex or after
  the caller has waited for another thread to release it. Whenever it returns it has
  stored \<open>now\<close> as the time of acquisition, and it has added to standard output the
  wait-time line exactly when the 64-bit difference \<open>now - t_enter\<close> exceeds the
  threshold, and nothing otherwise. Where that difference is exact (it fits 64 bits,
  as for any two readings of a microsecond clock), the line is written exactly when
  the elapsed time \<open>sint now - sint t_enter\<close> exceeds the threshold, and it reports
  that elapsed time.
\<close>

theorem Lock_reports_wait_time:
  "(\<forall>w0. os_error = 0 \<and> lock_granted others self this w w0 \<longrightarrow>
      (\<exists>w'. Lock True self this t_enter os_error others now buf (Some label) thr w =
              Returns () w'))
   \<and> (\<forall>x w'. Lock True self this t_enter os_error others now buf (Some label) thr w =
               Returns x w' \<longrightarrow>
        Mutex_lock_time (mutexes w' this) = now
        \<and> (\<exists>w0. lock_granted others self this w w0
              \<and> stdout w' = stdout w0 @
                   (if sint (now - t_enter) > sint thr
                    then [WaitLock buf label (now - t_enter)] else [])
              \<and> stderr w' = stderr w0
              \<and> (exact_diff now t_enter \<longrightarrow>
                    sint (now - t_enter) = sint now - sint t_enter
                    \<and> stdout w' = stdout w0 @
                         (if sint now - sint t_enter > sint thr
                          then [WaitLock buf label (now - t_enter)] else [])))
        \<and> (Mutex_mu (mutexes w this) = None \<longrightarrow>
              stdout w' = stdout w @
                (if sint (now - t_enter) > sint thr
                 then [WaitLock buf label (now - t_enter)] else [])
              \<and> stderr w' = stderr w))"
proof (intro conjI allI impI)
  fix w0
  assume "os_error = 0 \<and> lock_granted others self this w w0"
  then show "\<exists>w'. Lock True self this t_enter os_error others now buf (Some label) thr w =
              Returns () w'"
    using Lock_debug_label_Returns [of self this t_enter os_error others now buf label thr w "()"]
    by blast
next
  fix x w'
  assume r: "Lock True self this t_enter os_error others now buf (Some label) thr w = Returns x w'"
  from r [unfolded Lock_debug_label_Returns] obtain w0
    where g: "lock_granted others self this w w0"
      and w': "w' = (let w3 = AfterLock True self this now (Some label) thr
                               (update_mutex this (\<lambda>m. m\<lparr>Mutex_mu := Some self\<rparr>) w0)
                      in if sint (now - t_enter) > sint thr
                         then printf (WaitLock buf label (now - t_enter)) w3
                         else w3)"
    by blast
  show "Mutex_lock_time (mutexes w' this) = now"
    by (simp add: w' Let_def Mutex_lock_time_AfterLock_label)
  have out: "stdout w' = stdout w0 @
                   (if sint (now - t_enter) > sint thr
                    then [WaitLock buf label (now - t_enter)] else [])"
    by (simp add: w' Let_def)
  have err: "stderr w' = stderr w0"
    by (simp add: w' Let_def)
  have exact: "sint (now - t_enter) = sint now - sint t_enter
                    \<and> stdout w' = stdout w0 @
                         (if sint now - sint t_enter > sint thr
                          then [WaitLock buf label (now - t_enter)] else [])"
    if "exact_diff now t_enter"
    using out exact_diff_sint [OF that] by simp
  from g out err exact
  show "\<exists>w0. lock_granted others self this w w0
              \<and> stdout w' = stdout w0 @
                   (if sint (now - t_enter) > sint thr
                    then [WaitLock buf label (now - t_enter)] else [])
              \<and> stderr w' = stderr w0
              \<and> (exact_diff now t_enter \<longrightarrow>
                    sint (now - t_enter) = sint now - sint t_enter
                    \<and> stdout w' = stdout w0 @
                         (if sint now - sint t_enter > sint thr
                          then [WaitLock buf label (now - t_enter)] else []))"
    by blast
  {
    assume "Mutex_mu (mutexes w this) = None"
    with g have eq: "w0 = w"
      by (simp add: lock_granted_free)
    from eq out show "stdout w' = stdout w @
                (if sint (now - t_enter) > sint thr
                 then [WaitLock buf label (now - t_enter)] else [])"
      by simp
    from eq err show "stderr w' = stderr w"
      by simp
  }
qed

lemma lock_granted_contended:
  "self \<noteq> 2 \<Longrightarrow>
     lock_granted holder_releases self 0 contended_world w0 \<longleftrightarrow>
       holder_releases contended_world = Some w0"
  using holder_releases_contended
  by (auto simp add: lock_granted_def Mutex_mu_contended_world)

lemma exact_diff_7000_100: "exact_diff 7000 100"
  by (simp add: exact_diff_def)

theorem Lock_reports_wait_time_witness:
  "(\<exists>w'. Lock True 1 0 100 0 Some 7000 ''12:00'' (Some ''cache'') 5000 fresh_world = Returns () w'
        \<and> Mutex_lock_time (mutexes w' 0) = 7000
        \<and> stdout w' = [WaitLock ''12:00'' ''cache'' 6900])
   \<and> (\<exists>w'. Lock True 1 0 100 0 Some 5100 ''12:00'' (Some ''cache'') 5000 fresh_world = Returns () w'
        \<and> Mutex_lock_time (mutexes w' 0) = 5100
        \<and> stdout w' = [])
   \<and> Mutex_mu (mutexes contended_world 0) = Some 2
   \<and> (\<exists>w'. Lock True 1 0 100 0 holder_releases 7000 ''12:00'' (Some ''cache'') 5000
              contended_world = Returns () w'
        \<and> Mutex_lock_time (mutexes w' 0) = 7000
        \<and> stdout w' = [WaitLock ''12:00'' ''cache'' 6900]
        \<and> stderr w' = [])
   \<and> exact_diff 7000 100
   \<and> sint (7000 - 100 :: int64_t) = 6900"
proof -
  note inst = Lock_reports_wait_time [of 0 _ 1 0 _ 100 _ "''12:00''" "''cache''" 5000]
  have free: "Mutex_mu (mutexes fresh_world 0) = None"
    by (simp add: fresh_world_def fresh_mutex_def)
  have g: "(0::int) = 0 \<and> lock_granted Some 1 0 fresh_world fresh_world"
    by (simp add: lock_granted_def free)
  have out0: "stdout fresh_world = []"
    by (simp add: fresh_world_def)
  from inst [of Some fresh_world 7000, THEN conjunct1, rule_format, OF g] obtain w1
    where r1: "Lock True 1 0 100 0 Some 7000 ''12:00'' (Some ''cache'') 5000 fresh_world =
                 Returns () w1"
    by blast
  have a: "Mutex_lock_time (mutexes w1 0) = 7000 \<and> stdout w1 = [WaitLock ''12:00'' ''cache'' 6900]"
    using inst [of Some fresh_world 7000, THEN conjunct2, rule_format, OF r1, THEN conjunct1]
          inst [of Some fresh_world 7000, THEN conjunct2, rule_format, OF r1, THEN conjunct2,
                THEN conjunct2, THEN mp, OF free]
    by (simp add: out0)
  from inst [of Some fresh_world 5100, THEN conjunct1, rule_format, OF g] obtain w2
    where r2: "Lock True 1 0 100 0 Some 5100 ''12:00'' (Some ''cache'') 5000 fresh_world =
                 Returns () w2"
    by blast
  have b: "Mutex_lock_time (mutexes w2 0) = 5100 \<and> stdout w2 = []"
    using inst [of Some fresh_world 5100, THEN conjunct2, rule_format, OF r2, THEN conjunct1]
          inst [of Some fresh_world 5100, THEN conjunct2, rule_format, OF r2, THEN conjunct2,
                THEN conjunct2, THEN mp, OF free]
    by (simp add: out0)
  from holder_releases_contended obtain w0
    where rel: "holder_releases contended_world = Some w0" "stdout w0 = []"
    by blast
  have err0: "stderr w0 = []"
    using rel(1)
    by (auto simp add: holder_releases_def contended_world_def Unlock_unfold Let_def
          BeforeUnlock_def fresh_world_def fresh_mutex_def)
  have g': "(0::int) = 0 \<and> lock_granted holder_releases 1 0 contended_world w0"
    by (simp add: lock_granted_contended rel)
  from inst [of holder_releases contended_world 7000, THEN conjunct1, rule_format, OF g']
  obtain w3
    where r3: "Lock True 1 0 100 0 holder_releases 7000 ''12:00'' (Some ''cache'') 5000
                 contended_world = Returns () w3"
    by blast
  have c: "Mutex_lock_time (mutexes w3 0) = 7000 \<and> stdout w3 = [WaitLock ''12:00'' ''cache'' 6900]
            \<and> stderr w3 = []"
    using inst [of holder_releases contended_world 7000, THEN conjunct2, rule_format, OF r3,
                THEN conjunct1]
          inst [of holder_releases contended_world 7000, THEN conjunct2, rule_format, OF r3,
                THEN conjunct2, THEN conjunct1]
    by (auto simp add: lock_granted_contended rel err0)
  have d: "sint (7000 - 100 :: int64_t) = 6900"
    by simp
  from r1 a r2 b r3 c d exact_diff_7000_100 Mutex_mu_contended_world show ?thesis
    by blast
qed

section \<open>The deadline of TimeWait\<close>

lemma sint64_word_of_int:
  "- (2 ^ 63) \<le> k \<Longrightarrow> k < 2 ^ 63 \<Longrightarrow> sint (word_of_int k :: 64 word) = k"
  by (simp add: sint_sbintrunc' signed_take_bit_int_eq_self)

lemma sint64_numerals [simp]:
  "sint (1000 :: 64 word) = 1000" "sint (1000000 :: 64 word) = 1000000"
  by simp_all

lemma sint32_bounds: "- 2147483648 \<le> sint (t :: 32 word)" "sint (t :: 32 word) < 2147483648"
  using sint_ge [of t] sint_lt [of t] by simp_all

lemma sint64_bounds:
  "- 9223372036854775808 \<le> sint (x :: 64 word)" "sint (x :: 64 word) < 9223372036854775808"
  using sint_ge [of x] sint_lt [of x] by simp_all

lemma sint_scast_32_64: "sint (scast (t :: 32 word) :: 64 word) = sint t"
  by (rule sint_up_scast) (simp add: is_up_def source_size target_size)

lemma sint_timeout_times_1000:
  "sint (scast (t :: 32 word) * 1000 :: 64 word) = sint t * 1000"
proof -
  have "- (2 ^ 63) \<le> sint t * 1000" "sint t * 1000 < 2 ^ 63"
    using sint32_bounds [of t] by simp_all
  then show ?thesis
    by (simp add: sint_word_mult sint_scast_32_64 signed_take_bit_int_eq_self)
qed

lemma sint_TimeWait_usec:
  assumes "0 \<le> sint (tv_usec tv)" "sint (tv_usec tv) < 1000000"
  shows "sint (TimeWait_usec timeout tv) = sint (tv_usec tv) + sint timeout * 1000"
proof -
  have "- (2 ^ 63) \<le> sint (tv_usec tv) + sint timeout * 1000"
       "sint (tv_usec tv) + sint timeout * 1000 < 2 ^ 63"
    using assms sint32_bounds [of timeout] by simp_all
  then show ?thesis
    by (simp add: TimeWait_usec_def sint_word_add sint_timeout_times_1000
          signed_take_bit_int_eq_self)
qed

lemma sdiv_nonneg: "0 \<le> k \<Longrightarrow> 0 < l \<Longrightarrow> k sdiv l = k div (l :: int)"
  by (simp add: signed_divide_int_def sgn_if)

lemma smod_nonneg: "0 \<le> k \<Longrightarrow> 0 < l \<Longrightarrow> k smod l = k mod (l :: int)"
  by (simp add: signed_modulo_int_def sgn_if)


lemma TimeWait_ts_fields:
  assumes "0 \<le> sint timeout" "0 \<le> sint (tv_usec tv)" "sint (tv_usec tv) < 1000000"
  shows "ts_tv_sec (TimeWait_ts timeout tv) =
           tv_sec tv + word_of_int ((sint (tv_usec tv) + sint timeout * 1000) div 1000000)"
    and "sint (ts_tv_nsec (TimeWait_ts timeout tv)) =
           (sint (tv_usec tv) + sint timeout * 1000) mod 1000000 * 1000"
proof -
  let ?u = "sint (tv_usec tv) + sint timeout * 1000"
  have u: "sint (TimeWait_usec timeout tv) = ?u"
    using assms by (simp add: sint_TimeWait_usec)
  have nonneg: "0 \<le> ?u"
    using assms by simp
  have m: "0 \<le> ?u mod 1000000" "?u mod 1000000 < 1000000"
    by simp_all
  show "ts_tv_sec (TimeWait_ts timeout tv) = tv_sec tv + word_of_int (?u div 1000000)"
    using nonneg by (simp add: TimeWait_ts_def Let_def c_div_def u sdiv_nonneg)
  have cm: "sint (c_mod (TimeWait_usec timeout tv) 1000000) = ?u mod 1000000"
    using nonneg m by (simp add: c_mod_def u smod_nonneg sint64_word_of_int)
  have "- (2 ^ 63) \<le> ?u mod 1000000 * 1000" "?u mod 1000000 * 1000 < 2 ^ 63"
    using m by simp_all
  then show "sint (ts_tv_nsec (TimeWait_ts timeout tv)) = ?u mod 1000000 * 1000"
    by (simp add: TimeWait_ts_def Let_def sint_word_mult cm signed_take_bit_int_eq_self)
qed

text \<open>
  C7. For a timeout that is not negative and a clock reading whose microseconds lie
  below one million: the product \<open>timeout * 1000LL\<close> is exact in 64 bits (for every
  32-bit timeout), and so is the sum with the microseconds; the nanoseconds of the
  deadline lie in \<open>[0, 999999999]\<close>; the seconds of the deadline are the seconds of the
  clock plus a carry, and carry and nanoseconds together are exactly the microseconds
  of the clock plus the timeout. So wherever the seconds of the deadline fit the 64
  bits of \<open>time_t\<close>, the deadline is the clock reading plus \<open>timeout\<close> milliseconds, to
  the nanosecond.
\<close>

theorem TimeWait_deadline_exact:
  assumes "0 \<le> sint timeout" and "0 \<le> sint (tv_usec tv)" and "sint (tv_usec tv) < 1000000"
  shows "(\<forall>t :: 32 word. sint (scast t * 1000 :: 64 word) = sint t * 1000)
    \<and> sint (TimeWait_usec timeout tv) = sint (tv_usec tv) + sint timeout * 1000
    \<and> 0 \<le> sint (ts_tv_nsec (TimeWait_ts timeout tv))
    \<and> sint (ts_tv_nsec (TimeWait_ts timeout tv)) \<le> 999999999
    \<and> ts_tv_sec (TimeWait_ts timeout tv) =
        tv_sec tv + word_of_int ((sint (tv_usec tv) + sint timeout * 1000) div 1000000)
    \<and> (sint (tv_usec tv) + sint timeout * 1000) div 1000000 * 1000000000
          + sint (ts_tv_nsec (TimeWait_ts timeout tv)) =
        sint (tv_usec tv) * 1000 + sint timeout * 1000000
    \<and> (sint (tv_sec tv) + (sint (tv_usec tv) + sint timeout * 1000) div 1000000 < 2 ^ 63 \<longrightarrow>
          sint (ts_tv_sec (TimeWait_ts timeout tv)) * 1000000000
            + sint (ts_tv_nsec (TimeWait_ts timeout tv)) =
          sint (tv_sec tv) * 1000000000 + sint (tv_usec tv) * 1000 + sint timeout * 1000000)"
proof -
  let ?u = "sint (tv_usec tv) + sint timeout * 1000"
  let ?ts = "TimeWait_ts timeout tv"
  note f = TimeWait_ts_fields [OF assms]
  have nonneg: "0 \<le> ?u"
    using assms by simp
  have m: "0 \<le> ?u mod 1000000" "?u mod 1000000 < 1000000"
    by simp_all
  have q: "0 \<le> ?u div 1000000"
    using nonneg by (simp add: pos_imp_zdiv_nonneg_iff)
  have c1: "\<forall>t :: 32 word. sint (scast t * 1000 :: 64 word) = sint t * 1000"
    by (simp add: sint_timeout_times_1000)
  have c2: "sint (TimeWait_usec timeout tv) = ?u"
    using assms by (simp add: sint_TimeWait_usec)
  have c3: "0 \<le> sint (ts_tv_nsec ?ts)" "sint (ts_tv_nsec ?ts) \<le> 999999999"
    using m by (simp_all add: f(2))
  have "?u div 1000000 * 1000000000 + ?u mod 1000000 * 1000 =
      (?u div 1000000 * 1000000 + ?u mod 1000000) * 1000"
    by (simp only: distrib_right mult.assoc)
  also have "\<dots> = ?u * 1000"
    by (simp only: div_mult_mod_eq)
  also have "\<dots> = sint (tv_usec tv) * 1000 + sint timeout * 1000000"
    by (simp add: distrib_right)
  finally have c5: "?u div 1000000 * 1000000000 + sint (ts_tv_nsec ?ts) =
      sint (tv_usec tv) * 1000 + sint timeout * 1000000"
    by (simp only: f(2))
  have c6: "sint (ts_tv_sec ?ts) * 1000000000 + sint (ts_tv_nsec ?ts) =
      sint (tv_sec tv) * 1000000000 + sint (tv_usec tv) * 1000 + sint timeout * 1000000"
    if fits: "sint (tv_sec tv) + ?u div 1000000 < 2 ^ 63"
  proof -
    have "?u \<le> 2147484648000"
      using assms sint32_bounds [of timeout] by simp
    then have "?u div 1000000 \<le> 2147484648000 div 1000000"
      by (rule zdiv_mono1) simp
    then have qb: "?u div 1000000 < 2 ^ 63"
      by simp
    have qs: "sint (word_of_int (?u div 1000000) :: 64 word) = ?u div 1000000"
      using q qb by (simp add: sint64_word_of_int)
    have "sint (ts_tv_sec ?ts) = sint (tv_sec tv) + ?u div 1000000"
      using q fits sint64_bounds [of "tv_sec tv"]
      by (simp add: f(1) sint_word_add qs signed_take_bit_int_eq_self)
    with c5 show ?thesis
      by (simp add: algebra_simps)
  qed
  from c1 c2 c3 f(1) c5 c6 show ?thesis
    by blast
qed

theorem TimeWait_deadline_exact_witness:
  "0 \<le> sint (1500 :: 32 word)
   \<and> 0 \<le> sint (tv_usec \<lparr>tv_sec = 100, tv_usec = 999999\<rparr>)
   \<and> sint (tv_usec \<lparr>tv_sec = 100, tv_usec = 999999\<rparr>) < 1000000
   \<and> TimeWait_ts 1500 \<lparr>tv_sec = 100, tv_usec = 999999\<rparr> =
       \<lparr>ts_tv_sec = 102, ts_tv_nsec = 499999000\<rparr>
   \<and> sint (ts_tv_sec (TimeWait_ts 1500 \<lparr>tv_sec = 100, tv_usec = 999999\<rparr>)) * 1000000000
        + sint (ts_tv_nsec (TimeWait_ts 1500 \<lparr>tv_sec = 100, tv_usec = 999999\<rparr>)) =
      100 * 1000000000 + 999999 * 1000 + 1500 * 1000000"
proof -
  let ?tv = "\<lparr>tv_sec = 100, tv_usec = 999999\<rparr>"
  have h1: "0 \<le> sint (1500 :: 32 word)"
    by simp
  have h2: "0 \<le> sint (tv_usec ?tv)"
    by simp
  have h3: "sint (tv_usec ?tv) < 1000000"
    by simp
  have fits: "sint (tv_sec ?tv) + (sint (tv_usec ?tv) + sint (1500 :: 32 word) * 1000) div 1000000
                < 2 ^ 63"
    by simp
  note inst = TimeWait_deadline_exact [OF h1 h2 h3]
  have ts: "TimeWait_ts 1500 ?tv = \<lparr>ts_tv_sec = 102, ts_tv_nsec = 499999000\<rparr>"
    by (simp add: TimeWait_ts_def TimeWait_usec_def c_div_def c_mod_def Let_def
          signed_divide_int_def signed_modulo_int_def)
  have total: "sint (ts_tv_sec (TimeWait_ts 1500 ?tv)) * 1000000000
        + sint (ts_tv_nsec (TimeWait_ts 1500 ?tv)) =
      100 * 1000000000 + 999999 * 1000 + 1500 * 1000000"
    using inst [THEN conjunct2, THEN conjunct2, THEN conjunct2, THEN conjunct2, THEN conjunct2,
                THEN conjunct2, rule_format, OF fits]
    by simp
  from h1 h2 h3 ts total show ?thesis
    by blast
qed

section \<open>TimeWait and the result of the OS\<close>

lemma pthread_cond_timedwait_not_Aborts:
  "pthread_cond_timedwait os_error signalled others self a ts w \<noteq> Aborts w'"
  by (simp add: pthread_cond_timedwait_def take_when_woken_def split: option.splits)

lemma Wait_aborts_on_OS_error:
  "pthread_cond_wait os_error others self (CondVar_mu this)
     (BeforeUnlock dbg (CondVar_mu this) now1 buf now2 w) = Returns result w1 \<Longrightarrow>
   result \<noteq> 0 \<Longrightarrow>
   Wait dbg self this now1 buf now2 os_error others now msg w =
     Aborts (fprintf_stderr (PthreadError ''condvar wait'' result) w1)"
  by (simp add: Wait_def Let_def PthreadCall_def)

text \<open>
  C2. What the code does with the result of \<open>pthread_cond_timedwait\<close>: whatever the
  result \<open>ret\<close>, \<open>TimeWait\<close> goes on to \<open>AfterLock\<close> and returns \<open>ret = 0\<close>. It never
  aborts: a failure that is not the timeout (\<open>EINVAL\<close>, \<open>EPERM\<close>, a failure of the OS)
  comes back to the caller as \<open>false\<close>, like an elapsed deadline. \<open>Wait\<close> hands the
  result of its OS call to \<open>PthreadCall\<close> (\<open>Wait_aborts_on_OS_error\<close>); \<open>TimeWait\<close>
  does not.
\<close>

theorem TimeWait_returns_false_on_OS_failure:
  "(\<forall>ret w1.
      pthread_cond_timedwait os_error signalled others self (CondVar_mu this)
        (TimeWait_ts timeout tv) (BeforeUnlock dbg (CondVar_mu this) now1 buf now2 w) =
        Returns ret w1 \<longrightarrow>
      TimeWait dbg self this tv now1 buf now2 os_error signalled others now timeout msg w =
        Returns (ret = 0)
          (AfterLock dbg self (CondVar_mu this) now msg
             (Mutex_msg_threshold (mutexes w (CondVar_mu this))) w1))
   \<and> (\<forall>w'. TimeWait dbg self this tv now1 buf now2 os_error signalled others now timeout msg w
          \<noteq> Aborts w')"
proof (intro conjI allI impI)
  fix ret w1
  assume "pthread_cond_timedwait os_error signalled others self (CondVar_mu this)
        (TimeWait_ts timeout tv) (BeforeUnlock dbg (CondVar_mu this) now1 buf now2 w) =
        Returns ret w1"
  then show "TimeWait dbg self this tv now1 buf now2 os_error signalled others now timeout msg w =
        Returns (ret = 0)
          (AfterLock dbg self (CondVar_mu this) now msg
             (Mutex_msg_threshold (mutexes w (CondVar_mu this))) w1)"
    by (simp add: TimeWait_def Let_def)
next
  fix w'
  show "TimeWait dbg self this tv now1 buf now2 os_error signalled others now timeout msg w
          \<noteq> Aborts w'"
    using pthread_cond_timedwait_not_Aborts
    by (cases "pthread_cond_timedwait os_error signalled others self (CondVar_mu this)
        (TimeWait_ts timeout tv) (BeforeUnlock dbg (CondVar_mu this) now1 buf now2 w)")
       (simp_all add: TimeWait_def Let_def)
qed

text \<open>
  Two inputs on which the OS call fails with something other than the timeout. A
  timeout of \<open>-1\<close> ms at a clock reading with no microseconds gives a deadline with
  \<open>-1000000\<close> nanoseconds, which the OS refuses (\<open>EINVAL\<close>); and a caller that does not
  hold the mutex is refused with \<open>EPERM\<close>. Both calls return \<open>false\<close>; after the second
  one the owner field names the caller although the mutex is free.
\<close>

theorem TimeWait_returns_false_on_OS_failure_witness:
  "sint (ts_tv_nsec (TimeWait_ts (- 1) \<lparr>tv_sec = 100, tv_usec = 0\<rparr>)) = - 1000000
   \<and> pthread_cond_timedwait 0 False Some 1 0 (TimeWait_ts (- 1) \<lparr>tv_sec = 100, tv_usec = 0\<rparr>)
        (BeforeUnlock False 0 0 [] 0
           (update_mutex 0 (\<lambda>m. m\<lparr>Mutex_mu := Some 1, Mutex_owner := 1\<rparr>) fresh_world)) =
       Returns 22
         (update_mutex 0 (\<lambda>m. m\<lparr>Mutex_mu := Some 1, Mutex_owner := 0\<rparr>) fresh_world)
   \<and> TimeWait False 1 \<lparr>CondVar_mu = 0\<rparr> \<lparr>tv_sec = 100, tv_usec = 0\<rparr> 0 [] 0 0 False Some 0
        (- 1) None
        (update_mutex 0 (\<lambda>m. m\<lparr>Mutex_mu := Some 1, Mutex_owner := 1\<rparr>) fresh_world) =
       Returns False
         (update_mutex 0 (\<lambda>m. m\<lparr>Mutex_mu := Some 1, Mutex_owner := 1\<rparr>) fresh_world)
   \<and> pthread_cond_timedwait 0 False Some 1 0 (TimeWait_ts 100 \<lparr>tv_sec = 100, tv_usec = 0\<rparr>)
        (BeforeUnlock False 0 0 [] 0 fresh_world) = Returns 1 fresh_world
   \<and> TimeWait False 1 \<lparr>CondVar_mu = 0\<rparr> \<lparr>tv_sec = 100, tv_usec = 0\<rparr> 0 [] 0 0 False Some 0
        100 None fresh_world =
       Returns False (update_mutex 0 (\<lambda>m. m\<lparr>Mutex_owner := 1\<rparr>) fresh_world)
   \<and> Mutex_mu (mutexes (update_mutex 0 (\<lambda>m. m\<lparr>Mutex_owner := 1\<rparr>) fresh_world) 0) = None"
proof -
  let ?tv = "\<lparr>tv_sec = 100, tv_usec = 0\<rparr>"
  let ?held = "update_mutex 0 (\<lambda>m. m\<lparr>Mutex_mu := Some 1, Mutex_owner := 1\<rparr>) fresh_world"
  have ns: "sint (ts_tv_nsec (TimeWait_ts (- 1) ?tv)) = - 1000000"
    by (simp add: TimeWait_ts_def TimeWait_usec_def c_div_def c_mod_def Let_def
          signed_divide_int_def signed_modulo_int_def)
  have ns': "sint (ts_tv_nsec (TimeWait_ts 100 ?tv)) = 100000000"
    by (simp add: TimeWait_ts_def TimeWait_usec_def c_div_def c_mod_def Let_def
          signed_divide_int_def signed_modulo_int_def)
  have os1: "pthread_cond_timedwait 0 False Some 1 (CondVar_mu \<lparr>CondVar_mu = 0\<rparr>)
        (TimeWait_ts (- 1) ?tv)
        (BeforeUnlock False (CondVar_mu \<lparr>CondVar_mu = 0\<rparr>) 0 [] 0 ?held) =
       Returns 22 (update_mutex 0 (\<lambda>m. m\<lparr>Mutex_mu := Some 1, Mutex_owner := 0\<rparr>) fresh_world)"
    by (simp add: pthread_cond_timedwait_def ns BeforeUnlock_no_debug EINVAL_def)
  have os2: "pthread_cond_timedwait 0 False Some 1 (CondVar_mu \<lparr>CondVar_mu = 0\<rparr>)
        (TimeWait_ts 100 ?tv)
        (BeforeUnlock False (CondVar_mu \<lparr>CondVar_mu = 0\<rparr>) 0 [] 0 fresh_world) =
       Returns 1 fresh_world"
    by (simp add: pthread_cond_timedwait_def ns' BeforeUnlock_no_debug EPERM_def
          update_mutex_def fresh_world_def fresh_mutex_def fun_eq_iff)
  have t1: "TimeWait False 1 \<lparr>CondVar_mu = 0\<rparr> ?tv 0 [] 0 0 False Some 0 (- 1) None ?held =
       Returns False ?held"
    using TimeWait_returns_false_on_OS_failure [THEN conjunct1, rule_format, OF os1, of 0 None]
    by (simp add: AfterLock_no_debug)
  have t2: "TimeWait False 1 \<lparr>CondVar_mu = 0\<rparr> ?tv 0 [] 0 0 False Some 0 100 None fresh_world =
       Returns False (update_mutex 0 (\<lambda>m. m\<lparr>Mutex_owner := 1\<rparr>) fresh_world)"
    using TimeWait_returns_false_on_OS_failure [THEN conjunct1, rule_format, OF os2, of 0 None]
    by (simp add: AfterLock_no_debug)
  have free: "Mutex_mu (mutexes (update_mutex 0 (\<lambda>m. m\<lparr>Mutex_owner := 1\<rparr>) fresh_world) 0) = None"
    by (simp add: fresh_world_def fresh_mutex_def)
  from ns os1 t1 os2 t2 free show ?thesis
    by simp
qed

section \<open>Wait\<close>

lemma stdout_BeforeUnlock:
  "stdout (BeforeUnlock True a now1 buf now2 w) =
     stdout w @
       (case Mutex_msg (mutexes w a) of
          Some label \<Rightarrow>
            if sint (now1 - Mutex_lock_time (mutexes w a)) > sint (Mutex_msg_threshold (mutexes w a))
            then [Locked buf label (now2 - Mutex_lock_time (mutexes w a))]
            else []
        | None \<Rightarrow> [])"
  by (simp add: BeforeUnlock_def Let_def split: option.splits)

lemma Mutex_msg_BeforeUnlock [simp]:
  "Mutex_msg (mutexes (BeforeUnlock True a now1 buf now2 w) a) = None"
  by (simp add: BeforeUnlock_def Let_def split: option.splits)

lemma Mutex_msg_threshold_BeforeUnlock [simp]:
  "Mutex_msg_threshold (mutexes (BeforeUnlock dbg a now1 buf now2 w) b) =
     Mutex_msg_threshold (mutexes w b)"
  by (simp add: BeforeUnlock_def Let_def split: option.splits)

lemma Mutex_lock_time_BeforeUnlock [simp]:
  "Mutex_lock_time (mutexes (BeforeUnlock dbg a now1 buf now2 w) b) =
     Mutex_lock_time (mutexes w b)"
  by (simp add: BeforeUnlock_def Let_def split: option.splits)

lemma AfterLock_debug_fields:
  "Mutex_owner (mutexes (AfterLock dbg self a now msg thr w) a) = self"
  "Mutex_msg (mutexes (AfterLock True self a now msg thr w) a) = msg"
  "Mutex_msg_threshold (mutexes (AfterLock True self a now msg thr w) a) = thr"
  "Mutex_lock_time (mutexes (AfterLock True self a now msg thr w) a) =
     (if msg \<noteq> None then now else Mutex_lock_time (mutexes w a))"
  by (simp_all add: AfterLock_def Let_def)

lemma stdout_state_of_Unlock:
  "stdout (state_of (Unlock dbg self a now1 buf now2 os_error w)) =
     stdout (BeforeUnlock dbg a now1 buf now2 w)"
  by (simp add: Unlock_unfold Let_def)

lemma Wait_unfold:
  "Wait dbg self this now1 buf now2 os_error others now msg w =
     (let mu = CondVar_mu this;
          w0 = BeforeUnlock dbg mu now1 buf now2 w
      in if os_error \<noteq> 0
         then Aborts (fprintf_stderr (PthreadError ''condvar wait'' os_error) w0)
         else if Mutex_mu (mutexes w mu) \<noteq> Some self
         then Aborts (fprintf_stderr (PthreadError ''condvar wait'' EPERM) w0)
         else case others (cond_release mu w0) of
                None \<Rightarrow> Blocks (cond_release mu w0)
              | Some woken \<Rightarrow>
                  if Mutex_mu (mutexes woken mu) = None
                  then Returns ()
                         (AfterLock dbg self mu now msg (Mutex_msg_threshold (mutexes w mu))
                            (update_mutex mu (\<lambda>m. m\<lparr>Mutex_mu := Some self\<rparr>) woken))
                  else Blocks woken)"
  by (simp add: Wait_def Let_def pthread_cond_wait_def take_when_woken_def PthreadCall_def
        split: option.splits)

lemma Wait_Returns:
  "Wait dbg self this now1 buf now2 os_error others now msg w = Returns x w' \<Longrightarrow>
     \<exists>woken. others (cond_release (CondVar_mu this)
                        (BeforeUnlock dbg (CondVar_mu this) now1 buf now2 w)) = Some woken
       \<and> Mutex_mu (mutexes woken (CondVar_mu this)) = None
       \<and> w' = AfterLock dbg self (CondVar_mu this) now msg
                 (Mutex_msg_threshold (mutexes w (CondVar_mu this)))
                 (update_mutex (CondVar_mu this) (\<lambda>m. m\<lparr>Mutex_mu := Some self\<rparr>) woken)"
  by (auto simp add: Wait_unfold Let_def split: if_splits option.splits)

lemma Wait_Returns_if:
  "os_error = 0 \<Longrightarrow> Mutex_mu (mutexes w (CondVar_mu this)) = Some self \<Longrightarrow>
   others (cond_release (CondVar_mu this)
             (BeforeUnlock dbg (CondVar_mu this) now1 buf now2 w)) = Some woken \<Longrightarrow>
   Mutex_mu (mutexes woken (CondVar_mu this)) = None \<Longrightarrow>
   Wait dbg self this now1 buf now2 os_error others now msg w =
     Returns () (AfterLock dbg self (CondVar_mu this) now msg
                 (Mutex_msg_threshold (mutexes w (CondVar_mu this)))
                 (update_mutex (CondVar_mu this) (\<lambda>m. m\<lparr>Mutex_mu := Some self\<rparr>) woken))"
  by (simp add: Wait_unfold Let_def)

lemma Wait_Blocks_if:
  "os_error = 0 \<Longrightarrow> Mutex_mu (mutexes w (CondVar_mu this)) = Some self \<Longrightarrow>
   others (cond_release (CondVar_mu this)
             (BeforeUnlock dbg (CondVar_mu this) now1 buf now2 w)) = None \<Longrightarrow>
   Wait dbg self this now1 buf now2 os_error others now msg w =
     Blocks (cond_release (CondVar_mu this) (BeforeUnlock dbg (CondVar_mu this) now1 buf now2 w))"
  by (simp add: Wait_unfold Let_def)

lemma asleep_fields:
  "Mutex_owner (mutexes (cond_release a (BeforeUnlock dbg a now1 buf now2 w)) a) = 0"
  "Mutex_mu (mutexes (cond_release a (BeforeUnlock dbg a now1 buf now2 w)) a) = None"
  "Mutex_msg (mutexes (cond_release a (BeforeUnlock True a now1 buf now2 w)) a) = None"
  "stdout (cond_release a (BeforeUnlock dbg a now1 buf now2 w)) =
     stdout (BeforeUnlock dbg a now1 buf now2 w)"
  by (simp_all add: cond_release_def)

lemma other_thread_on_free:
  "Mutex_mu (mutexes w 0) = None \<Longrightarrow>
     \<exists>woken. other_thread w = Some woken \<and> Mutex_mu (mutexes woken 0) = None
       \<and> Mutex_owner (mutexes woken 0) = 0 \<and> Mutex_msg_threshold (mutexes woken 0) = 1
       \<and> Mutex_lock_time (mutexes woken 0) = 50000 \<and> stdout woken = stdout w"
  by (simp add: other_thread_def Lock_debug_label pthread_mutex_lock_cases Unlock_unfold Let_def
        AfterLock_def BeforeUnlock_def)

lemma stdout_Unlock_after_AfterLock:
  "stdout (state_of (Unlock True self a u1 ubuf u2 e (AfterLock True self a now msg thr w))) =
     stdout w @
       (case msg of
          Some label \<Rightarrow> if sint (u1 - now) > sint thr then [Locked ubuf label (u2 - now)] else []
        | None \<Rightarrow> [])"
  by (simp add: stdout_state_of_Unlock stdout_BeforeUnlock AfterLock_debug_fields
        split: option.splits)

text \<open>
  C6. With the instrumentation compiled in. \<open>asleep\<close> is the state in which the caller
  of \<open>Wait\<close> is suspended, the one the other threads see: the hold-time line, if due, has
  been written from the clock readings taken before the release, and owner and label
  are cleared; a \<open>Wait\<close> that is never woken stays in that state. When \<open>Wait\<close> returns,
  the state is \<open>AfterLock\<close> applied to the state in which the caller was woken and took
  the mutex again: the owner is the caller and the threshold is the one the mutex had
  when \<open>Wait\<close> was entered (whatever the other threads stored meanwhile). The time of
  acquisition is read afresh only when \<open>Wait\<close> is given a label: then it is \<open>now\<close>,
  read after the mutex was taken again, and the hold-time line of a following \<open>Unlock\<close>
  is decided by the 64-bit difference \<open>u1 - now\<close> and reports \<open>u2 - now\<close>, time since
  the mutex was taken again with nothing of the time spent suspended; where the
  difference is exact the line is written exactly when the elapsed time
  \<open>sint u1 - sint now\<close> exceeds the threshold. Without a label (the default) no time
  is read, the stored time of acquisition is the one found in the state in which the
  caller was woken, and a following \<open>Unlock\<close> writes no line.
\<close>

theorem Wait_suspends_bookkeeping:
  "let mu = CondVar_mu this;
       m = mutexes w mu;
       asleep = cond_release mu (BeforeUnlock True mu now1 buf now2 w)
   in (Mutex_owner (mutexes asleep mu) = 0 \<and> Mutex_msg (mutexes asleep mu) = None
        \<and> Mutex_mu (mutexes asleep mu) = None
        \<and> stdout asleep = stdout w @
             (case Mutex_msg m of
                Some label \<Rightarrow>
                  if sint (now1 - Mutex_lock_time m) > sint (Mutex_msg_threshold m)
                  then [Locked buf label (now2 - Mutex_lock_time m)] else []
              | None \<Rightarrow> []))
      \<and> (\<forall>woken. os_error = 0 \<and> Mutex_mu m = Some self \<and> others asleep = Some woken
             \<and> Mutex_mu (mutexes woken mu) = None \<longrightarrow>
           (\<exists>w'. Wait True self this now1 buf now2 os_error others now msg w = Returns () w'))
      \<and> (os_error = 0 \<and> Mutex_mu m = Some self \<and> others asleep = None \<longrightarrow>
           Wait True self this now1 buf now2 os_error others now msg w = Blocks asleep)
      \<and> (\<forall>x w'. Wait True self this now1 buf now2 os_error others now msg w = Returns x w' \<longrightarrow>
           (\<exists>woken. others asleep = Some woken
              \<and> w' = AfterLock True self mu now msg (Mutex_msg_threshold m)
                        (update_mutex mu (\<lambda>m. m\<lparr>Mutex_mu := Some self\<rparr>) woken)
              \<and> stdout w' = stdout woken
              \<and> (msg = None \<longrightarrow>
                    Mutex_lock_time (mutexes w' mu) = Mutex_lock_time (mutexes woken mu)))
           \<and> Mutex_owner (mutexes w' mu) = self
           \<and> Mutex_msg (mutexes w' mu) = msg
           \<and> Mutex_msg_threshold (mutexes w' mu) = Mutex_msg_threshold m
           \<and> (msg \<noteq> None \<longrightarrow> Mutex_lock_time (mutexes w' mu) = now)
           \<and> (\<forall>u1 ubuf u2 e.
                 stdout (state_of (Unlock True self mu u1 ubuf u2 e w')) =
                   stdout w' @
                     (case msg of
                        Some label \<Rightarrow>
                          if sint (u1 - now) > sint (Mutex_msg_threshold m)
                          then [Locked ubuf label (u2 - now)] else []
                      | None \<Rightarrow> []))
           \<and> (\<forall>u1 ubuf u2 e label. msg = Some label \<and> exact_diff u1 now \<longrightarrow>
                 stdout (state_of (Unlock True self mu u1 ubuf u2 e w')) =
                   stdout w' @
                     (if sint u1 - sint now > sint (Mutex_msg_threshold m)
                      then [Locked ubuf label (u2 - now)] else [])))"
proof -
  let ?mu = "CondVar_mu this"
  let ?asleep = "cond_release ?mu (BeforeUnlock True ?mu now1 buf now2 w)"
  let ?thr = "Mutex_msg_threshold (mutexes w ?mu)"
  have before: "Mutex_owner (mutexes ?asleep ?mu) = 0 \<and> Mutex_msg (mutexes ?asleep ?mu) = None
        \<and> Mutex_mu (mutexes ?asleep ?mu) = None
        \<and> stdout ?asleep = stdout w @
             (case Mutex_msg (mutexes w ?mu) of
                Some label \<Rightarrow>
                  if sint (now1 - Mutex_lock_time (mutexes w ?mu)) > sint ?thr
                  then [Locked buf label (now2 - Mutex_lock_time (mutexes w ?mu))] else []
              | None \<Rightarrow> [])"
    by (simp add: asleep_fields stdout_BeforeUnlock)
  have returns: "\<exists>w'. Wait True self this now1 buf now2 os_error others now msg w = Returns () w'"
    if "os_error = 0 \<and> Mutex_mu (mutexes w ?mu) = Some self \<and> others ?asleep = Some woken
             \<and> Mutex_mu (mutexes woken ?mu) = None" for woken
    using Wait_Returns_if [of os_error w this self others True now1 buf now2 woken now msg,
               OF that [THEN conjunct1] that [THEN conjunct2, THEN conjunct1]
               that [THEN conjunct2, THEN conjunct2, THEN conjunct1]
               that [THEN conjunct2, THEN conjunct2, THEN conjunct2]]
    by blast
  have blocks: "Wait True self this now1 buf now2 os_error others now msg w = Blocks ?asleep"
    if "os_error = 0 \<and> Mutex_mu (mutexes w ?mu) = Some self \<and> others ?asleep = None"
    by (rule Wait_Blocks_if [of os_error w this self others True now1 buf now2 now msg,
               OF that [THEN conjunct1] that [THEN conjunct2, THEN conjunct1]
               that [THEN conjunct2, THEN conjunct2]])
  have after: "(\<exists>woken. others ?asleep = Some woken
              \<and> w' = AfterLock True self ?mu now msg ?thr
                        (update_mutex ?mu (\<lambda>m. m\<lparr>Mutex_mu := Some self\<rparr>) woken)
              \<and> stdout w' = stdout woken
              \<and> (msg = None \<longrightarrow>
                    Mutex_lock_time (mutexes w' ?mu) = Mutex_lock_time (mutexes woken ?mu)))
           \<and> Mutex_owner (mutexes w' ?mu) = self
           \<and> Mutex_msg (mutexes w' ?mu) = msg
           \<and> Mutex_msg_threshold (mutexes w' ?mu) = ?thr
           \<and> (msg \<noteq> None \<longrightarrow> Mutex_lock_time (mutexes w' ?mu) = now)
           \<and> (\<forall>u1 ubuf u2 e.
                 stdout (state_of (Unlock True self ?mu u1 ubuf u2 e w')) =
                   stdout w' @
                     (case msg of
                        Some label \<Rightarrow>
                          if sint (u1 - now) > sint ?thr then [Locked ubuf label (u2 - now)] else []
                      | None \<Rightarrow> []))
           \<and> (\<forall>u1 ubuf u2 e label. msg = Some label \<and> exact_diff u1 now \<longrightarrow>
                 stdout (state_of (Unlock True self ?mu u1 ubuf u2 e w')) =
                   stdout w' @
                     (if sint u1 - sint now > sint ?thr
                      then [Locked ubuf label (u2 - now)] else []))"
    if r: "Wait True self this now1 buf now2 os_error others now msg w = Returns x w'" for x w'
  proof -
    from Wait_Returns [OF r] obtain woken where
      woken: "others ?asleep = Some woken"
      and w': "w' = AfterLock True self ?mu now msg ?thr
                      (update_mutex ?mu (\<lambda>m. m\<lparr>Mutex_mu := Some self\<rparr>) woken)"
      by blast
    have out: "stdout w' = stdout woken"
      by (simp add: w')
    have stale: "msg = None \<longrightarrow>
                   Mutex_lock_time (mutexes w' ?mu) = Mutex_lock_time (mutexes woken ?mu)"
      by (simp add: w' AfterLock_debug_fields)
    have unlock: "stdout (state_of (Unlock True self ?mu u1 ubuf u2 e w')) =
                   stdout w' @
                     (case msg of
                        Some label \<Rightarrow>
                          if sint (u1 - now) > sint ?thr then [Locked ubuf label (u2 - now)] else []
                      | None \<Rightarrow> [])" for u1 ubuf u2 e
      unfolding out unfolding w' by (simp add: stdout_Unlock_after_AfterLock)
    have exact: "stdout (state_of (Unlock True self ?mu u1 ubuf u2 e w')) =
                   stdout w' @
                     (if sint u1 - sint now > sint ?thr
                      then [Locked ubuf label (u2 - now)] else [])"
      if "msg = Some label \<and> exact_diff u1 now" for u1 ubuf u2 e label
      using unlock [of u1 ubuf u2 e] that exact_diff_sint [of u1 now]
      by simp
    have fields: "Mutex_owner (mutexes w' ?mu) = self" "Mutex_msg (mutexes w' ?mu) = msg"
      "Mutex_msg_threshold (mutexes w' ?mu) = ?thr"
      "msg \<noteq> None \<longrightarrow> Mutex_lock_time (mutexes w' ?mu) = now"
      by (simp_all add: w' AfterLock_debug_fields)
    from woken w' out stale have ex: "\<exists>woken. others ?asleep = Some woken
              \<and> w' = AfterLock True self ?mu now msg ?thr
                        (update_mutex ?mu (\<lambda>m. m\<lparr>Mutex_mu := Some self\<rparr>) woken)
              \<and> stdout w' = stdout woken
              \<and> (msg = None \<longrightarrow>
                    Mutex_lock_time (mutexes w' ?mu) = Mutex_lock_time (mutexes woken ?mu))"
      by blast
    from ex fields unlock exact show ?thesis
      by blast
  qed
  show ?thesis
    unfolding Let_def using before returns blocks after by blast
qed

lemma locked_world_fields:
  "Mutex_mu (mutexes locked_world 0) = Some 1"
  "Mutex_msg (mutexes locked_world 0) = Some ''cache''"
  "Mutex_msg_threshold (mutexes locked_world 0) = 5000"
  "Mutex_lock_time (mutexes locked_world 0) = 1000"
  "stdout locked_world = []"
  by (simp_all add: locked_world_def fresh_world_def)

lemma exact_diff_106000_100000: "exact_diff 106000 100000"
  by (simp add: exact_diff_def)

theorem Wait_suspends_bookkeeping_witness:
  "Mutex_mu (mutexes locked_world 0) = Some 1
   \<and> (\<exists>w'. Wait True 1 \<lparr>CondVar_mu = 0\<rparr> 9000 ''12:00'' 9001 0 other_thread 100000
               (Some ''again'') locked_world = Returns () w'
         \<and> stdout w' = [Locked ''12:00'' ''cache'' 8001]
         \<and> Mutex_owner (mutexes w' 0) = 1
         \<and> Mutex_msg_threshold (mutexes w' 0) = 5000
         \<and> Mutex_lock_time (mutexes w' 0) = 100000
         \<and> stdout (state_of (Unlock True 1 0 102000 ''12:02'' 102001 0 w')) =
             [Locked ''12:00'' ''cache'' 8001]
         \<and> exact_diff 106000 100000
         \<and> stdout (state_of (Unlock True 1 0 106000 ''12:02'' 106001 0 w')) =
             [Locked ''12:00'' ''cache'' 8001, Locked ''12:02'' ''again'' 6001])
   \<and> (\<exists>w'. Wait True 1 \<lparr>CondVar_mu = 0\<rparr> 9000 ''12:00'' 9001 0 other_thread 100000
               None locked_world = Returns () w'
         \<and> Mutex_owner (mutexes w' 0) = 1
         \<and> Mutex_msg_threshold (mutexes w' 0) = 5000
         \<and> Mutex_lock_time (mutexes w' 0) = 50000
         \<and> stdout (state_of (Unlock True 1 0 106000 ''12:02'' 106001 0 w')) =
             [Locked ''12:00'' ''cache'' 8001])
   \<and> Wait True 1 \<lparr>CondVar_mu = 0\<rparr> 9000 ''12:00'' 9001 0 (\<lambda>_. None) 100000
        (Some ''again'') locked_world =
      Blocks (cond_release 0 (BeforeUnlock True 0 9000 ''12:00'' 9001 locked_world))"
proof -
  let ?cv = "\<lparr>CondVar_mu = 0\<rparr>"
  let ?asleep = "cond_release 0 (BeforeUnlock True 0 9000 ''12:00'' 9001 locked_world)"
  note inst = Wait_suspends_bookkeeping
                [of ?cv locked_world 9000 "''12:00''" 9001 0 1 other_thread 100000 "Some ''again''",
                 unfolded Let_def]
  note inst0 = Wait_suspends_bookkeeping
                [of ?cv locked_world 9000 "''12:00''" 9001 0 1 other_thread 100000 None,
                 unfolded Let_def]
  note inst1 = Wait_suspends_bookkeeping
                [of ?cv locked_world 9000 "''12:00''" 9001 0 1 "\<lambda>_. None" 100000
                    "Some ''again''", unfolded Let_def]
  note fields = locked_world_fields
  have held: "Mutex_mu (mutexes locked_world 0) = Some 1"
    by (rule fields)
  have asleep: "stdout ?asleep = [Locked ''12:00'' ''cache'' 8001]"
    using inst [THEN conjunct1] by (simp add: fields)
  have "Mutex_mu (mutexes ?asleep 0) = None"
    by (simp add: asleep_fields)
  from other_thread_on_free [OF this] obtain woken
    where woken: "other_thread ?asleep = Some woken" "Mutex_mu (mutexes woken 0) = None"
      "stdout woken = stdout ?asleep" "Mutex_lock_time (mutexes woken 0) = 50000"
    by blast
  have pre: "(0::int) = 0 \<and> Mutex_mu (mutexes locked_world (CondVar_mu ?cv)) = Some 1
      \<and> other_thread (cond_release (CondVar_mu ?cv)
            (BeforeUnlock True (CondVar_mu ?cv) 9000 ''12:00'' 9001 locked_world)) = Some woken
      \<and> Mutex_mu (mutexes woken (CondVar_mu ?cv)) = None"
    by (simp add: held woken)
  from inst [THEN conjunct2, THEN conjunct1, rule_format, OF pre] obtain w'
    where r: "Wait True 1 ?cv 9000 ''12:00'' 9001 0 other_thread 100000 (Some ''again'')
                locked_world = Returns () w'"
    by blast
  note post = inst [THEN conjunct2, THEN conjunct2, THEN conjunct2, rule_format, OF r]
  have out: "stdout w' = [Locked ''12:00'' ''cache'' 8001]"
    using post [THEN conjunct1] asleep woken by auto
  have own: "Mutex_owner (mutexes w' 0) = 1"
    using post [THEN conjunct2, THEN conjunct1] by simp
  have thr: "Mutex_msg_threshold (mutexes w' 0) = 5000"
    using post [THEN conjunct2, THEN conjunct2, THEN conjunct2, THEN conjunct1]
    by (simp add: fields)
  have time: "Mutex_lock_time (mutexes w' 0) = 100000"
    using post [THEN conjunct2, THEN conjunct2, THEN conjunct2, THEN conjunct2, THEN conjunct1]
    by simp
  note unlock = post [THEN conjunct2, THEN conjunct2, THEN conjunct2, THEN conjunct2,
                      THEN conjunct2, THEN conjunct1, rule_format]
  have quick: "stdout (state_of (Unlock True 1 0 102000 ''12:02'' 102001 0 w')) =
             [Locked ''12:00'' ''cache'' 8001]"
    using unlock [of 102000 "''12:02''" 102001 0] by (simp add: out fields)
  have ex: "Some ''again'' = Some ''again'' \<and> exact_diff 106000 100000"
    by (simp add: exact_diff_106000_100000)
  have slow: "stdout (state_of (Unlock True 1 0 106000 ''12:02'' 106001 0 w')) =
             [Locked ''12:00'' ''cache'' 8001, Locked ''12:02'' ''again'' 6001]"
    using post [THEN conjunct2, THEN conjunct2, THEN conjunct2, THEN conjunct2,
                THEN conjunct2, THEN conjunct2, rule_format, OF ex, of "''12:02''" 106001 0]
    by (simp add: out fields)
  from inst0 [THEN conjunct2, THEN conjunct1, rule_format, OF pre] obtain w''
    where r0: "Wait True 1 ?cv 9000 ''12:00'' 9001 0 other_thread 100000 None
                locked_world = Returns () w''"
    by blast
  note post0 = inst0 [THEN conjunct2, THEN conjunct2, THEN conjunct2, rule_format, OF r0]
  have out0: "stdout w'' = [Locked ''12:00'' ''cache'' 8001]"
    using post0 [THEN conjunct1] asleep woken by auto
  have own0: "Mutex_owner (mutexes w'' 0) = 1"
    using post0 [THEN conjunct2, THEN conjunct1] by simp
  have thr0: "Mutex_msg_threshold (mutexes w'' 0) = 5000"
    using post0 [THEN conjunct2, THEN conjunct2, THEN conjunct2, THEN conjunct1]
    by (simp add: fields)
  have time0: "Mutex_lock_time (mutexes w'' 0) = 50000"
    using post0 [THEN conjunct1] woken by auto
  have unlock0: "stdout (state_of (Unlock True 1 0 106000 ''12:02'' 106001 0 w'')) =
             [Locked ''12:00'' ''cache'' 8001]"
    using post0 [THEN conjunct2, THEN conjunct2, THEN conjunct2, THEN conjunct2,
                 THEN conjunct2, THEN conjunct1, rule_format, of 106000 "''12:02''" 106001 0]
    by (simp add: out0)
  have pre1: "(0::int) = 0 \<and> Mutex_mu (mutexes locked_world (CondVar_mu ?cv)) = Some 1
      \<and> (\<lambda>_. None) (cond_release (CondVar_mu ?cv)
            (BeforeUnlock True (CondVar_mu ?cv) 9000 ''12:00'' 9001 locked_world)) = None"
    by (simp add: held)
  have blocked: "Wait True 1 ?cv 9000 ''12:00'' 9001 0 (\<lambda>_. None) 100000 (Some ''again'')
                   locked_world = Blocks ?asleep"
    using inst1 [THEN conjunct2, THEN conjunct2, THEN conjunct1, THEN mp, OF pre1]
    by simp
  from held r out own thr time quick slow exact_diff_106000_100000
  have labelled: "\<exists>w'. Wait True 1 \<lparr>CondVar_mu = 0\<rparr> 9000 ''12:00'' 9001 0 other_thread 100000
               (Some ''again'') locked_world = Returns () w'
         \<and> stdout w' = [Locked ''12:00'' ''cache'' 8001]
         \<and> Mutex_owner (mutexes w' 0) = 1
         \<and> Mutex_msg_threshold (mutexes w' 0) = 5000
         \<and> Mutex_lock_time (mutexes w' 0) = 100000
         \<and> stdout (state_of (Unlock True 1 0 102000 ''12:02'' 102001 0 w')) =
             [Locked ''12:00'' ''cache'' 8001]
         \<and> exact_diff 106000 100000
         \<and> stdout (state_of (Unlock True 1 0 106000 ''12:02'' 106001 0 w')) =
             [Locked ''12:00'' ''cache'' 8001, Locked ''12:02'' ''again'' 6001]"
    by blast
  from r0 own0 thr0 time0 unlock0
  have default: "\<exists>w'. Wait True 1 \<lparr>CondVar_mu = 0\<rparr> 9000 ''12:00'' 9001 0 other_thread 100000
               None locked_world = Returns () w'
         \<and> Mutex_owner (mutexes w' 0) = 1
         \<and> Mutex_msg_threshold (mutexes w' 0) = 5000
         \<and> Mutex_lock_time (mutexes w' 0) = 50000
         \<and> stdout (state_of (Unlock True 1 0 106000 ''12:02'' 106001 0 w')) =
             [Locked ''12:00'' ''cache'' 8001]"
    by blast
  from held labelled default blocked show ?thesis
    by blast
qed

text \<open>
  The default \<open>Wait()\<close> reads no time. Thread 1 holds the mutex since time \<open>1000\<close> and
  waits without a label; while it is suspended thread 2 takes the mutex with a label at
  time \<open>50000\<close> and releases it; thread 1 is woken and \<open>AfterLock\<close> runs at time
  \<open>100000\<close>. \<open>Wait\<close> returns with thread 1 as owner, and the stored time of acquisition
  is thread 2's \<open>50000\<close>, not the time at which thread 1 took the mutex again.
\<close>

theorem Wait_default_keeps_stale_lock_time:
  "returned (Wait True 1 \<lparr>CondVar_mu = 0\<rparr> 9000 ''12:00'' 9001 0 other_thread 100000 None
               locked_world)
   \<and> Mutex_owner (mutexes (state_of (Wait True 1 \<lparr>CondVar_mu = 0\<rparr> 9000 ''12:00'' 9001 0
                      other_thread 100000 None locked_world)) 0) = 1
   \<and> Mutex_mu (mutexes (state_of (Wait True 1 \<lparr>CondVar_mu = 0\<rparr> 9000 ''12:00'' 9001 0
                      other_thread 100000 None locked_world)) 0) = Some 1
   \<and> Mutex_lock_time (mutexes (state_of (Wait True 1 \<lparr>CondVar_mu = 0\<rparr> 9000 ''12:00'' 9001 0
                      other_thread 100000 None locked_world)) 0) = 50000
   \<and> Mutex_lock_time (mutexes (state_of (Wait True 1 \<lparr>CondVar_mu = 0\<rparr> 9000 ''12:00'' 9001 0
                      other_thread 100000 None locked_world)) 0) \<noteq> 100000"
proof -
  let ?cv = "\<lparr>CondVar_mu = 0\<rparr>"
  let ?asleep = "cond_release 0 (BeforeUnlock True 0 9000 ''12:00'' 9001 locked_world)"
  have "Mutex_mu (mutexes ?asleep 0) = None"
    by (simp add: asleep_fields)
  from other_thread_on_free [OF this] obtain woken
    where woken: "other_thread ?asleep = Some woken" "Mutex_mu (mutexes woken 0) = None"
      "Mutex_lock_time (mutexes woken 0) = 50000"
    by blast
  have r: "Wait True 1 ?cv 9000 ''12:00'' 9001 0 other_thread 100000 None locked_world =
      Returns () (AfterLock True 1 0 100000 None 5000
                    (update_mutex 0 (\<lambda>m. m\<lparr>Mutex_mu := Some 1\<rparr>) woken))"
    using Wait_Returns_if [of 0 locked_world ?cv 1 other_thread True 9000 "''12:00''" 9001 woken
                             100000 None]
    by (simp add: locked_world_fields woken)
  show ?thesis
    unfolding r by (simp add: AfterLock_debug_fields woken)
qed

section \<open>The guard and its block\<close>

text \<open>
  C5. The constructor of \<open>MutexLock\<close> is \<open>Lock\<close> on the mutex it is given, with the label
  and threshold it is given (its defaults are those of \<open>Lock\<close>), and the guard it
  returns points to that mutex. The destructor is \<open>Unlock\<close> on the mutex the guard
  points to. A block that starts with a guard and whose body leaves it in any of the
  three ways ends with \<open>Unlock\<close> on the same mutex, applied to the state the body left;
  when \<open>Lock\<close> does not return, neither the body nor \<open>Unlock\<close> runs.
\<close>

theorem MutexLock_pairs_Lock_and_Unlock:
  "MutexLock_ctor dbg self mu t_enter os_error others now buf msg thr w =
     and_then (Lock dbg self mu t_enter os_error others now buf msg thr w)
       (\<lambda>_. Returns \<lparr>MutexLock_mu = mu\<rparr>)
   \<and> MutexLock_default_msg = Lock_default_msg
   \<and> MutexLock_default_msg_threshold = Lock_default_msg_threshold
   \<and> (\<forall>guard w1.
         MutexLock_ctor dbg self mu t_enter os_error others now buf msg thr w = Returns guard w1 \<longrightarrow>
         MutexLock_mu guard = mu
         \<and> Lock dbg self mu t_enter os_error others now buf msg thr w = Returns () w1
         \<and> (\<forall>now1 buf' now2 os_error' w2.
               MutexLock_dtor dbg self guard now1 buf' now2 os_error' w2 =
                 Unlock dbg self mu now1 buf' now2 os_error' w2))
   \<and> (\<forall>w1 exit w2.
         Lock dbg self mu t_enter os_error others now buf msg thr w = Returns () w1
         \<and> body w1 = Returns exit w2 \<longrightarrow>
         MutexLock_scope dbg self mu t_enter os_error others now buf msg thr body
             now1 buf' now2 os_error' w =
           and_then (Unlock dbg self mu now1 buf' now2 os_error' w2) (\<lambda>_. Returns exit))
   \<and> (\<forall>w1. Lock dbg self mu t_enter os_error others now buf msg thr w = Aborts w1 \<longrightarrow>
         MutexLock_scope dbg self mu t_enter os_error others now buf msg thr body
             now1 buf' now2 os_error' w = Aborts w1)
   \<and> (\<forall>w1. Lock dbg self mu t_enter os_error others now buf msg thr w = Blocks w1 \<longrightarrow>
         MutexLock_scope dbg self mu t_enter os_error others now buf msg thr body
             now1 buf' now2 os_error' w = Blocks w1)"
proof (intro conjI allI impI)
  show "MutexLock_ctor dbg self mu t_enter os_error others now buf msg thr w =
     and_then (Lock dbg self mu t_enter os_error others now buf msg thr w)
       (\<lambda>_. Returns \<lparr>MutexLock_mu = mu\<rparr>)"
    by (simp add: MutexLock_ctor_def Let_def)
  show "MutexLock_default_msg = Lock_default_msg"
    by (simp add: MutexLock_default_msg_def Lock_default_msg_def)
  show "MutexLock_default_msg_threshold = Lock_default_msg_threshold"
    by (simp add: MutexLock_default_msg_threshold_def Lock_default_msg_threshold_def)
next
  fix guard w1
  assume c: "MutexLock_ctor dbg self mu t_enter os_error others now buf msg thr w = Returns guard w1"
  then show g: "MutexLock_mu guard = mu"
    by (cases "Lock dbg self mu t_enter os_error others now buf msg thr w")
       (auto simp add: MutexLock_ctor_def Let_def)
  from c show "Lock dbg self mu t_enter os_error others now buf msg thr w = Returns () w1"
    by (cases "Lock dbg self mu t_enter os_error others now buf msg thr w")
       (auto simp add: MutexLock_ctor_def Let_def)
  fix now1 buf' now2 os_error' w2
  show "MutexLock_dtor dbg self guard now1 buf' now2 os_error' w2 =
          Unlock dbg self mu now1 buf' now2 os_error' w2"
    by (simp add: MutexLock_dtor_def g)
next
  fix w1 exit w2
  assume "Lock dbg self mu t_enter os_error others now buf msg thr w = Returns () w1
         \<and> body w1 = Returns exit w2"
  then show "MutexLock_scope dbg self mu t_enter os_error others now buf msg thr body
             now1 buf' now2 os_error' w =
           and_then (Unlock dbg self mu now1 buf' now2 os_error' w2) (\<lambda>_. Returns exit)"
    by (simp add: MutexLock_scope_def MutexLock_ctor_def MutexLock_dtor_def Let_def)
next
  fix w1
  assume "Lock dbg self mu t_enter os_error others now buf msg thr w = Aborts w1"
  then show "MutexLock_scope dbg self mu t_enter os_error others now buf msg thr body
             now1 buf' now2 os_error' w = Aborts w1"
    by (simp add: MutexLock_scope_def MutexLock_ctor_def Let_def)
next
  fix w1
  assume "Lock dbg self mu t_enter os_error others now buf msg thr w = Blocks w1"
  then show "MutexLock_scope dbg self mu t_enter os_error others now buf msg thr body
             now1 buf' now2 os_error' w = Blocks w1"
    by (simp add: MutexLock_scope_def MutexLock_ctor_def Let_def)
qed

theorem MutexLock_pairs_Lock_and_Unlock_witness:
  "Lock False 1 0 0 0 Some 0 [] (Some ''cache'') 7 fresh_world =
     Returns () (update_mutex 0 (\<lambda>m. m\<lparr>Mutex_mu := Some 1, Mutex_owner := 1\<rparr>) fresh_world)
   \<and> MutexLock_ctor False 1 0 0 0 Some 0 [] (Some ''cache'') 7 fresh_world =
       Returns \<lparr>MutexLock_mu = 0\<rparr>
         (update_mutex 0 (\<lambda>m. m\<lparr>Mutex_mu := Some 1, Mutex_owner := 1\<rparr>) fresh_world)
   \<and> MutexLock_scope False 1 0 0 0 Some 0 [] (Some ''cache'') 7 (Returns Unwinds) 0 [] 0 0 fresh_world =
       Returns Unwinds fresh_world
   \<and> MutexLock_scope False 1 0 0 0 Some 0 [] (Some ''cache'') 7 (Returns Early_return) 0 [] 0 0
        fresh_world = Returns Early_return fresh_world
   \<and> MutexLock_scope False 1 0 0 0 Some 0 [] (Some ''cache'') 7 (Returns Falls_through) 0 [] 0 0
        fresh_world = Returns Falls_through fresh_world"
proof -
  let ?held = "update_mutex 0 (\<lambda>m. m\<lparr>Mutex_mu := Some 1, Mutex_owner := 1\<rparr>) fresh_world"
  have lock: "Lock False 1 0 0 0 Some 0 [] (Some ''cache'') 7 fresh_world = Returns () ?held"
    by (simp add: Lock_no_debug fresh_world_def fresh_mutex_def)
  have unlock: "Unlock False 1 0 0 [] 0 0 ?held = Returns () fresh_world"
    by (simp add: Unlock_no_debug update_mutex_def fresh_world_def fresh_mutex_def fun_eq_iff)
  have ctor: "MutexLock_ctor False 1 0 0 0 Some 0 [] (Some ''cache'') 7 fresh_world =
       Returns \<lparr>MutexLock_mu = 0\<rparr> ?held"
    by (simp only: MutexLock_pairs_Lock_and_Unlock [THEN conjunct1] lock and_then.simps)
  have scope: "MutexLock_scope False 1 0 0 0 Some 0 [] (Some ''cache'') 7 (Returns exit) 0 [] 0 0
        fresh_world = Returns exit fresh_world" for exit
  proof -
    have pre: "Lock False 1 0 0 0 Some 0 [] (Some ''cache'') 7 fresh_world = Returns () ?held
         \<and> Returns exit ?held = Returns exit ?held"
      using lock by simp
    show ?thesis
      by (simp only: MutexLock_pairs_Lock_and_Unlock
              [THEN conjunct2, THEN conjunct2, THEN conjunct2, THEN conjunct2, THEN conjunct1,
               rule_format, of False 1 0 0 0 Some 0 "[]" "Some ''cache''" 7 fresh_world ?held
                 "Returns exit" exit ?held 0 "[]" 0 0, OF pre] unlock and_then.simps)
  qed
  from lock ctor scope show ?thesis
    by simp
qed

section \<open>The owner field and the OS primitive\<close>

lemma TimeWait_unfold:
  "TimeWait dbg self this tv now1 buf now2 os_error signalled others now timeout msg w =
     (let mu = CondVar_mu this;
          ts = TimeWait_ts timeout tv;
          thr = Mutex_msg_threshold (mutexes w mu);
          w0 = BeforeUnlock dbg mu now1 buf now2 w
      in if os_error \<noteq> 0 then Returns False (AfterLock dbg self mu now msg thr w0)
         else if sint (ts_tv_nsec ts) < 0 \<or> 1000000000 \<le> sint (ts_tv_nsec ts)
         then Returns False (AfterLock dbg self mu now msg thr w0)
         else if Mutex_mu (mutexes w mu) \<noteq> Some self
         then Returns False (AfterLock dbg self mu now msg thr w0)
         else case others (cond_release mu w0) of
                None \<Rightarrow> Blocks (cond_release mu w0)
              | Some woken \<Rightarrow>
                  if Mutex_mu (mutexes woken mu) = None
                  then Returns signalled
                         (AfterLock dbg self mu now msg thr
                            (update_mutex mu (\<lambda>m. m\<lparr>Mutex_mu := Some self\<rparr>) woken))
                  else Blocks woken)"
  by (simp add: TimeWait_def Let_def pthread_cond_timedwait_def take_when_woken_def
        split: option.splits)

lemma mutexes_printf [simp]: "mutexes (printf l w) = mutexes w"
  by (simp add: printf_def)

lemma mutexes_fprintf_stderr [simp]: "mutexes (fprintf_stderr l w) = mutexes w"
  by (simp add: fprintf_stderr_def)

lemma Lock_after_OS:
  "pthread_mutex_lock os_error others self this w = Returns 0 w1 \<Longrightarrow>
     \<exists>w'. Lock dbg self this t_enter os_error others now buf msg thr w = Returns () w'
        \<and> mutexes w' = mutexes (AfterLock dbg self this now msg thr w1)"
  by (simp add: Lock_unfold Let_def split: option.splits)

lemma Lock_Aborts:
  "Lock dbg self this t_enter os_error others now buf msg thr w = Aborts w' \<Longrightarrow>
     mutexes w' = mutexes w"
  by (auto simp add: Lock_unfold pthread_mutex_lock_cases split: if_splits option.splits)

lemma Lock_Blocks:
  "Lock dbg self this t_enter os_error others now buf msg thr w = Blocks w' \<Longrightarrow>
     (others w = None \<and> w' = w) \<or> (others w = Some w' \<and> Mutex_mu (mutexes w' this) \<noteq> None)"
  by (auto simp add: Lock_unfold pthread_mutex_lock_cases split: if_splits option.splits)

lemma Unlock_Returns:
  "Unlock dbg self this now1 buf now2 os_error w = Returns x w' \<Longrightarrow>
     Mutex_mu (mutexes w this) = Some self \<and> Mutex_mu (mutexes w' this) = None
     \<and> Mutex_owner (mutexes w' this) = 0"
  by (auto simp add: Unlock_unfold Let_def split: if_splits)

lemma Wait_Returns_fields:
  "Wait dbg self this now1 buf now2 os_error others now msg w = Returns x w' \<Longrightarrow>
     Mutex_mu (mutexes w' (CondVar_mu this)) = Some self
     \<and> Mutex_owner (mutexes w' (CondVar_mu this)) = self
     \<and> Mutex_mu (mutexes w (CondVar_mu this)) = Some self"
  by (auto simp add: Wait_unfold Let_def split: if_splits option.splits)

lemma TimeWait_Returns_fields:
  "TimeWait dbg self this tv now1 buf now2 os_error signalled others now timeout msg w =
     Returns x w' \<Longrightarrow>
   Mutex_mu (mutexes w (CondVar_mu this)) = Some self \<Longrightarrow>
     Mutex_mu (mutexes w' (CondVar_mu this)) = Some self
     \<and> Mutex_owner (mutexes w' (CondVar_mu this)) = self"
  by (auto simp add: TimeWait_unfold Let_def split: if_splits option.splits)

lemma TimeWait_Returns_woken:
  "TimeWait dbg self this tv now1 buf now2 os_error signalled others now timeout msg w =
     Returns x w' \<Longrightarrow>
   os_error = 0 \<Longrightarrow>
   0 \<le> sint (ts_tv_nsec (TimeWait_ts timeout tv)) \<Longrightarrow>
   sint (ts_tv_nsec (TimeWait_ts timeout tv)) < 1000000000 \<Longrightarrow>
   Mutex_mu (mutexes w (CondVar_mu this)) = Some self \<Longrightarrow>
     x = signalled
     \<and> (\<exists>woken. others (cond_release (CondVar_mu this)
                          (BeforeUnlock dbg (CondVar_mu this) now1 buf now2 w)) = Some woken
           \<and> Mutex_mu (mutexes woken (CondVar_mu this)) = None
           \<and> w' = AfterLock dbg self (CondVar_mu this) now msg
                     (Mutex_msg_threshold (mutexes w (CondVar_mu this)))
                     (update_mutex (CondVar_mu this) (\<lambda>m. m\<lparr>Mutex_mu := Some self\<rparr>) woken))"
  by (auto simp add: TimeWait_unfold Let_def split: if_splits option.splits)

lemma TimeWait_not_holder:
  "Mutex_mu (mutexes w (CondVar_mu this)) \<noteq> Some self \<Longrightarrow>
     TimeWait dbg self this tv now1 buf now2 os_error signalled others now timeout msg w =
       Returns False
         (AfterLock dbg self (CondVar_mu this) now msg
            (Mutex_msg_threshold (mutexes w (CondVar_mu this)))
            (BeforeUnlock dbg (CondVar_mu this) now1 buf now2 w))"
  by (simp add: TimeWait_unfold Let_def)

lemma TimeWait_OS_failure:
  "os_error \<noteq> 0 \<or> sint (ts_tv_nsec (TimeWait_ts timeout tv)) < 0
     \<or> 1000000000 \<le> sint (ts_tv_nsec (TimeWait_ts timeout tv)) \<Longrightarrow>
     TimeWait dbg self this tv now1 buf now2 os_error signalled others now timeout msg w =
       Returns False
         (AfterLock dbg self (CondVar_mu this) now msg
            (Mutex_msg_threshold (mutexes w (CondVar_mu this)))
            (BeforeUnlock dbg (CondVar_mu this) now1 buf now2 w))"
  by (auto simp add: TimeWait_unfold Let_def)

lemma owner_iff_held_I:
  "self \<noteq> 0 \<Longrightarrow> Mutex_mu m = Some self \<Longrightarrow> Mutex_owner m = self \<Longrightarrow> owner_iff_held m"
  by (simp add: owner_iff_held_def)

lemma owner_iff_held_free:
  "Mutex_mu m = None \<Longrightarrow> Mutex_owner m = 0 \<Longrightarrow> owner_iff_held m"
  by (simp add: owner_iff_held_def)

lemma not_owner_iff_held:
  "Mutex_owner m = self \<Longrightarrow> self \<noteq> 0 \<Longrightarrow> Mutex_mu m \<noteq> Some self \<Longrightarrow> \<not> owner_iff_held m"
  by (simp add: owner_iff_held_def)

text \<open>
  C1. The calling thread has an identity other than \<open>0\<close>, and on the mutex the owner
  field is set exactly when the primitive is held. Then, for each operation:

  \<^item> \<open>Lock\<close>: when the OS call has taken the primitive, \<open>Lock\<close> returns and the mutex is
    the one \<open>AfterLock\<close> leaves from that state: the owner is stored only after the
    primitive has been acquired. When \<open>Lock\<close> returns, the caller holds the primitive
    and is the owner; when it aborts, the mutex is as it was; when it waits, it has
    changed nothing.
  \<^item> \<open>Unlock\<close>: the OS call is made on the state \<open>BeforeUnlock\<close> leaves, in which the
    owner is cleared and the primitive untouched; when \<open>Unlock\<close> returns, the primitive
    is free and the owner is cleared.
  \<^item> \<open>Wait\<close>: the outcome is given in full. The state in which the caller is suspended,
    the one handed to the other threads, is the state \<open>BeforeUnlock\<close> leaves with the
    primitive released: owner and primitive are both cleared. \<open>Wait\<close> returns only
    when the caller has been woken with the primitive free, and then in the state
    \<open>AfterLock\<close> leaves once the caller has taken the primitive: the caller is the
    owner. A caller that does not hold the mutex aborts.
  \<^item> \<open>TimeWait\<close>: the outcome is given in full. For a caller that holds the mutex it is
    as for \<open>Wait\<close>, except that a failure of the OS call gives \<open>false\<close> and no abort;
    the caller still holds the primitive and is the owner. For a caller that does not
    hold the mutex, \<open>TimeWait\<close> returns \<open>false\<close> in the state \<open>AfterLock\<close> leaves
    from the state \<open>BeforeUnlock\<close> left: the owner field names the caller, the
    primitive is as it was, and the owner field is set on a mutex its owner does not
    hold.
\<close>

theorem owner_iff_held_through_operations:
  assumes "self \<noteq> 0" and "owner_iff_held (mutexes w this)" and "CondVar_mu cv = this"
  shows
    "(\<forall>w1. pthread_mutex_lock os_error others self this w = Returns 0 w1 \<longrightarrow>
        Mutex_mu (mutexes w1 this) = Some self
        \<and> (\<exists>w'. Lock dbg self this t_enter os_error others now buf msg thr w = Returns () w'
              \<and> mutexes w' = mutexes (AfterLock dbg self this now msg thr w1)))
     \<and> (\<forall>x w'. Lock dbg self this t_enter os_error others now buf msg thr w = Returns x w' \<longrightarrow>
           owner_iff_held (mutexes w' this)
           \<and> Mutex_mu (mutexes w' this) = Some self \<and> Mutex_owner (mutexes w' this) = self)
     \<and> (\<forall>w'. Lock dbg self this t_enter os_error others now buf msg thr w = Aborts w' \<longrightarrow>
           mutexes w' = mutexes w)
     \<and> (\<forall>w'. Lock dbg self this t_enter os_error others now buf msg thr w = Blocks w' \<longrightarrow>
           (others w = None \<and> w' = w)
           \<or> (others w = Some w' \<and> Mutex_mu (mutexes w' this) \<noteq> None))
     \<and> Unlock dbg self this now1 buf now2 os_error w =
         and_then (pthread_mutex_unlock os_error self this (BeforeUnlock dbg this now1 buf now2 w))
           (PthreadCall ''mutex unlock'')
     \<and> Mutex_owner (mutexes (BeforeUnlock dbg this now1 buf now2 w) this) = 0
     \<and> Mutex_mu (mutexes (BeforeUnlock dbg this now1 buf now2 w) this) = Mutex_mu (mutexes w this)
     \<and> owner_implies_held (mutexes (BeforeUnlock dbg this now1 buf now2 w) this)
     \<and> (\<forall>x w'. Unlock dbg self this now1 buf now2 os_error w = Returns x w' \<longrightarrow>
           owner_iff_held (mutexes w' this) \<and> Mutex_mu (mutexes w' this) = None
           \<and> Mutex_owner (mutexes w' this) = 0)
     \<and> owner_iff_held (mutexes (cond_release this (BeforeUnlock dbg this now1 buf now2 w)) this)
     \<and> Mutex_owner (mutexes (cond_release this (BeforeUnlock dbg this now1 buf now2 w)) this) = 0
     \<and> Mutex_mu (mutexes (cond_release this (BeforeUnlock dbg this now1 buf now2 w)) this) = None
     \<and> Wait dbg self cv now1 buf now2 os_error others now msg w =
         (if os_error \<noteq> 0
          then Aborts (fprintf_stderr (PthreadError ''condvar wait'' os_error)
                         (BeforeUnlock dbg this now1 buf now2 w))
          else if Mutex_mu (mutexes w this) \<noteq> Some self
          then Aborts (fprintf_stderr (PthreadError ''condvar wait'' EPERM)
                         (BeforeUnlock dbg this now1 buf now2 w))
          else case others (cond_release this (BeforeUnlock dbg this now1 buf now2 w)) of
                 None \<Rightarrow> Blocks (cond_release this (BeforeUnlock dbg this now1 buf now2 w))
               | Some woken \<Rightarrow>
                   if Mutex_mu (mutexes woken this) = None
                   then Returns ()
                          (AfterLock dbg self this now msg (Mutex_msg_threshold (mutexes w this))
                             (update_mutex this (\<lambda>m. m\<lparr>Mutex_mu := Some self\<rparr>) woken))
                   else Blocks woken)
     \<and> (\<forall>x w'. Wait dbg self cv now1 buf now2 os_error others now msg w = Returns x w' \<longrightarrow>
           owner_iff_held (mutexes w' this) \<and> Mutex_mu (mutexes w' this) = Some self
           \<and> Mutex_owner (mutexes w' this) = self
           \<and> (\<exists>woken. others (cond_release this (BeforeUnlock dbg this now1 buf now2 w)) =
                         Some woken
                  \<and> Mutex_mu (mutexes woken this) = None
                  \<and> w' = AfterLock dbg self this now msg (Mutex_msg_threshold (mutexes w this))
                            (update_mutex this (\<lambda>m. m\<lparr>Mutex_mu := Some self\<rparr>) woken)))
     \<and> TimeWait dbg self cv tv now1 buf now2 os_error signalled others now timeout msg w =
         (if os_error \<noteq> 0 \<or> sint (ts_tv_nsec (TimeWait_ts timeout tv)) < 0
               \<or> 1000000000 \<le> sint (ts_tv_nsec (TimeWait_ts timeout tv))
               \<or> Mutex_mu (mutexes w this) \<noteq> Some self
          then Returns False
                 (AfterLock dbg self this now msg (Mutex_msg_threshold (mutexes w this))
                    (BeforeUnlock dbg this now1 buf now2 w))
          else case others (cond_release this (BeforeUnlock dbg this now1 buf now2 w)) of
                 None \<Rightarrow> Blocks (cond_release this (BeforeUnlock dbg this now1 buf now2 w))
               | Some woken \<Rightarrow>
                   if Mutex_mu (mutexes woken this) = None
                   then Returns signalled
                          (AfterLock dbg self this now msg (Mutex_msg_threshold (mutexes w this))
                             (update_mutex this (\<lambda>m. m\<lparr>Mutex_mu := Some self\<rparr>) woken))
                   else Blocks woken)
     \<and> (Mutex_mu (mutexes w this) = Some self \<longrightarrow>
          (\<forall>x w'. TimeWait dbg self cv tv now1 buf now2 os_error signalled others now timeout
                     msg w = Returns x w' \<longrightarrow>
             owner_iff_held (mutexes w' this) \<and> Mutex_mu (mutexes w' this) = Some self
             \<and> Mutex_owner (mutexes w' this) = self))
     \<and> (Mutex_mu (mutexes w this) = Some self \<and> os_error = 0
          \<and> 0 \<le> sint (ts_tv_nsec (TimeWait_ts timeout tv))
          \<and> sint (ts_tv_nsec (TimeWait_ts timeout tv)) < 1000000000 \<longrightarrow>
          (\<forall>x w'. TimeWait dbg self cv tv now1 buf now2 os_error signalled others now timeout
                     msg w = Returns x w' \<longrightarrow>
             x = signalled
             \<and> (\<exists>woken. others (cond_release this (BeforeUnlock dbg this now1 buf now2 w)) =
                           Some woken
                    \<and> Mutex_mu (mutexes woken this) = None
                    \<and> w' = AfterLock dbg self this now msg (Mutex_msg_threshold (mutexes w this))
                              (update_mutex this (\<lambda>m. m\<lparr>Mutex_mu := Some self\<rparr>) woken))))
     \<and> (Mutex_mu (mutexes w this) \<noteq> Some self \<longrightarrow>
          TimeWait dbg self cv tv now1 buf now2 os_error signalled others now timeout msg w =
            Returns False
              (AfterLock dbg self this now msg (Mutex_msg_threshold (mutexes w this))
                 (BeforeUnlock dbg this now1 buf now2 w))
          \<and> Mutex_owner (mutexes (state_of (TimeWait dbg self cv tv now1 buf now2 os_error
                signalled others now timeout msg w)) this) = self
          \<and> Mutex_mu (mutexes (state_of (TimeWait dbg self cv tv now1 buf now2 os_error
                signalled others now timeout msg w)) this) = Mutex_mu (mutexes w this)
          \<and> \<not> owner_iff_held (mutexes (state_of (TimeWait dbg self cv tv now1 buf now2 os_error
                signalled others now timeout msg w)) this))"
proof -
  let ?lock = "Lock dbg self this t_enter os_error others now buf msg thr w"
  let ?w0 = "BeforeUnlock dbg this now1 buf now2 w"
  let ?asleep = "cond_release this ?w0"
  let ?thr = "Mutex_msg_threshold (mutexes w this)"
  let ?wait = "Wait dbg self cv now1 buf now2 os_error others now msg w"
  let ?timewait = "TimeWait dbg self cv tv now1 buf now2 os_error signalled others now timeout
                     msg w"
  note cv = assms(3)
  have l1: "Mutex_mu (mutexes w1 this) = Some self
        \<and> (\<exists>w'. ?lock = Returns () w'
              \<and> mutexes w' = mutexes (AfterLock dbg self this now msg thr w1))"
    if "pthread_mutex_lock os_error others self this w = Returns 0 w1" for w1
    using pthread_mutex_lock_Returns [OF that] Lock_after_OS [OF that]
    by simp
  have l2: "owner_iff_held (mutexes w' this)
           \<and> Mutex_mu (mutexes w' this) = Some self \<and> Mutex_owner (mutexes w' this) = self"
    if "?lock = Returns x w'" for x w'
    using Lock_Returns_held [OF that] Lock_Returns_owner [OF that] assms(1)
    by (simp add: owner_iff_held_I)
  have l3: "mutexes w' = mutexes w" if "?lock = Aborts w'" for w'
    using that by (rule Lock_Aborts)
  have l4: "(others w = None \<and> w' = w)
           \<or> (others w = Some w' \<and> Mutex_mu (mutexes w' this) \<noteq> None)"
    if "?lock = Blocks w'" for w'
    using that by (rule Lock_Blocks)
  have u0: "Unlock dbg self this now1 buf now2 os_error w =
         and_then (pthread_mutex_unlock os_error self this ?w0) (PthreadCall ''mutex unlock'')"
    by (simp add: Unlock_def)
  have u1: "Mutex_owner (mutexes ?w0 this) = 0"
    "Mutex_mu (mutexes ?w0 this) = Mutex_mu (mutexes w this)"
    "owner_implies_held (mutexes ?w0 this)"
    by (simp_all add: owner_implies_held_def)
  have u2: "owner_iff_held (mutexes w' this) \<and> Mutex_mu (mutexes w' this) = None
           \<and> Mutex_owner (mutexes w' this) = 0"
    if "Unlock dbg self this now1 buf now2 os_error w = Returns x w'" for x w'
    using Unlock_Returns [OF that] by (simp add: owner_iff_held_free)
  have s1: "owner_iff_held (mutexes ?asleep this)"
    "Mutex_owner (mutexes ?asleep this) = 0"
    "Mutex_mu (mutexes ?asleep this) = None"
    by (simp_all add: owner_iff_held_free asleep_fields)
  have w0: "?wait =
         (if os_error \<noteq> 0
          then Aborts (fprintf_stderr (PthreadError ''condvar wait'' os_error) ?w0)
          else if Mutex_mu (mutexes w this) \<noteq> Some self
          then Aborts (fprintf_stderr (PthreadError ''condvar wait'' EPERM) ?w0)
          else case others ?asleep of
                 None \<Rightarrow> Blocks ?asleep
               | Some woken \<Rightarrow>
                   if Mutex_mu (mutexes woken this) = None
                   then Returns ()
                          (AfterLock dbg self this now msg ?thr
                             (update_mutex this (\<lambda>m. m\<lparr>Mutex_mu := Some self\<rparr>) woken))
                   else Blocks woken)"
    by (simp add: Wait_unfold Let_def cv)
  have w1: "owner_iff_held (mutexes w' this) \<and> Mutex_mu (mutexes w' this) = Some self
           \<and> Mutex_owner (mutexes w' this) = self
           \<and> (\<exists>woken. others ?asleep = Some woken
                  \<and> Mutex_mu (mutexes woken this) = None
                  \<and> w' = AfterLock dbg self this now msg ?thr
                            (update_mutex this (\<lambda>m. m\<lparr>Mutex_mu := Some self\<rparr>) woken))"
    if "?wait = Returns x w'" for x w'
    using Wait_Returns_fields [OF that] Wait_Returns [OF that] assms(1)
    unfolding cv
    by (simp add: owner_iff_held_I)
  have t0: "?timewait =
         (if os_error \<noteq> 0 \<or> sint (ts_tv_nsec (TimeWait_ts timeout tv)) < 0
               \<or> 1000000000 \<le> sint (ts_tv_nsec (TimeWait_ts timeout tv))
               \<or> Mutex_mu (mutexes w this) \<noteq> Some self
          then Returns False (AfterLock dbg self this now msg ?thr ?w0)
          else case others ?asleep of
                 None \<Rightarrow> Blocks ?asleep
               | Some woken \<Rightarrow>
                   if Mutex_mu (mutexes woken this) = None
                   then Returns signalled
                          (AfterLock dbg self this now msg ?thr
                             (update_mutex this (\<lambda>m. m\<lparr>Mutex_mu := Some self\<rparr>) woken))
                   else Blocks woken)"
    by (simp add: TimeWait_unfold Let_def cv)
  have t1: "owner_iff_held (mutexes w' this) \<and> Mutex_mu (mutexes w' this) = Some self
             \<and> Mutex_owner (mutexes w' this) = self"
    if "Mutex_mu (mutexes w this) = Some self" and "?timewait = Returns x w'" for x w'
    using TimeWait_Returns_fields [OF that(2)] that(1) assms(1)
    unfolding cv
    by (simp add: owner_iff_held_I)
  have t2: "x = signalled
             \<and> (\<exists>woken. others ?asleep = Some woken
                    \<and> Mutex_mu (mutexes woken this) = None
                    \<and> w' = AfterLock dbg self this now msg ?thr
                              (update_mutex this (\<lambda>m. m\<lparr>Mutex_mu := Some self\<rparr>) woken))"
    if "Mutex_mu (mutexes w this) = Some self \<and> os_error = 0
          \<and> 0 \<le> sint (ts_tv_nsec (TimeWait_ts timeout tv))
          \<and> sint (ts_tv_nsec (TimeWait_ts timeout tv)) < 1000000000"
      and "?timewait = Returns x w'" for x w'
    using TimeWait_Returns_woken [OF that(2)] that(1)
    unfolding cv
    by simp
  have t3: "?timewait = Returns False (AfterLock dbg self this now msg ?thr ?w0)
          \<and> Mutex_owner (mutexes (state_of ?timewait) this) = self
          \<and> Mutex_mu (mutexes (state_of ?timewait) this) = Mutex_mu (mutexes w this)
          \<and> \<not> owner_iff_held (mutexes (state_of ?timewait) this)"
    if nh: "Mutex_mu (mutexes w this) \<noteq> Some self"
  proof -
    have r: "?timewait = Returns False (AfterLock dbg self this now msg ?thr ?w0)"
      using nh by (simp add: t0)
    have own: "Mutex_owner (mutexes (state_of ?timewait) this) = self"
      unfolding r by simp
    have mu: "Mutex_mu (mutexes (state_of ?timewait) this) = Mutex_mu (mutexes w this)"
      unfolding r by simp
    from own mu nh assms(1) have "\<not> owner_iff_held (mutexes (state_of ?timewait) this)"
      by (simp add: not_owner_iff_held)
    with r own mu show ?thesis
      by simp
  qed
  show ?thesis
    apply (intro conjI allI impI)
    subgoal for w1 using l1 [of w1] by simp
    subgoal for w1 using l1 [of w1] by simp
    subgoal for x w' using l2 [of x w'] by simp
    subgoal for x w' using l2 [of x w'] by simp
    subgoal for x w' using l2 [of x w'] by simp
    subgoal for w' using l3 [of w'] by simp
    subgoal for w' using l4 [of w'] by simp
    subgoal by (rule u0)
    subgoal by (rule u1)
    subgoal by (rule u1)
    subgoal by (rule u1)
    subgoal for x w' using u2 [of x w'] by simp
    subgoal for x w' using u2 [of x w'] by simp
    subgoal for x w' using u2 [of x w'] by simp
    subgoal by (rule s1)
    subgoal by (rule s1)
    subgoal by (rule s1)
    subgoal by (rule w0)
    subgoal for x w' using w1 [of x w'] by simp
    subgoal for x w' using w1 [of x w'] by simp
    subgoal for x w' using w1 [of x w'] by simp
    subgoal for x w' using w1 [of x w'] by simp
    subgoal by (rule t0)
    subgoal for x w' using t1 [of x w'] by simp
    subgoal for x w' using t1 [of x w'] by simp
    subgoal for x w' using t1 [of x w'] by simp
    subgoal for x w' using t2 [of x w'] by simp
    subgoal for x w' using t2 [of x w'] by simp
    subgoal using t3 by blast
    subgoal using t3 by blast
    subgoal using t3 by blast
    subgoal using t3 by blast
    done
qed

lemma owner_iff_held_concrete:
  "owner_iff_held (mutexes fresh_world 0)"
  "owner_iff_held (mutexes locked_world 0)"
  "owner_iff_held (mutexes contended_world 0)"
  by (simp_all add: owner_iff_held_def fresh_world_def fresh_mutex_def locked_world_def
        contended_world_def)

theorem owner_iff_held_through_operations_witness:
  "(1::nat) \<noteq> 0 \<and> owner_iff_held (mutexes fresh_world 0)
   \<and> owner_iff_held (mutexes locked_world 0) \<and> owner_iff_held (mutexes contended_world 0)
   \<and> Mutex_mu (mutexes locked_world 0) = Some 1
   \<and> (\<exists>w'. Lock True 1 0 100 0 Some 200 [] None 5000 fresh_world = Returns () w'
         \<and> owner_iff_held (mutexes w' 0) \<and> Mutex_owner (mutexes w' 0) = 1)
   \<and> (\<exists>w'. Lock True 1 0 100 0 holder_releases 7000 [] None 5000 contended_world =
              Returns () w'
         \<and> owner_iff_held (mutexes w' 0) \<and> Mutex_owner (mutexes w' 0) = 1)
   \<and> (\<exists>w'. Unlock True 1 0 2000 [] 2001 0 locked_world = Returns () w'
         \<and> owner_iff_held (mutexes w' 0) \<and> Mutex_owner (mutexes w' 0) = 0)
   \<and> (\<exists>w'. Wait True 1 \<lparr>CondVar_mu = 0\<rparr> 2000 [] 2001 0 other_thread 60000 None locked_world =
              Returns () w'
         \<and> owner_iff_held (mutexes w' 0) \<and> Mutex_owner (mutexes w' 0) = 1)
   \<and> (\<exists>w'. TimeWait True 1 \<lparr>CondVar_mu = 0\<rparr> \<lparr>tv_sec = 100, tv_usec = 0\<rparr> 2000 [] 2001 0 False
              other_thread 60000 100 None locked_world = Returns False w'
         \<and> owner_iff_held (mutexes w' 0) \<and> Mutex_owner (mutexes w' 0) = 1)
   \<and> Mutex_mu (mutexes fresh_world 0) = None
   \<and> TimeWait True 1 \<lparr>CondVar_mu = 0\<rparr> \<lparr>tv_sec = 100, tv_usec = 0\<rparr> 2000 [] 2001 0 False
        Some 60000 100 None fresh_world =
      Returns False
        (AfterLock True 1 0 60000 None (Mutex_msg_threshold (mutexes fresh_world 0))
           (BeforeUnlock True 0 2000 [] 2001 fresh_world))
   \<and> Mutex_owner (mutexes (state_of (TimeWait True 1 \<lparr>CondVar_mu = 0\<rparr>
        \<lparr>tv_sec = 100, tv_usec = 0\<rparr> 2000 [] 2001 0 False Some 60000 100 None fresh_world)) 0) = 1
   \<and> Mutex_mu (mutexes (state_of (TimeWait True 1 \<lparr>CondVar_mu = 0\<rparr>
        \<lparr>tv_sec = 100, tv_usec = 0\<rparr> 2000 [] 2001 0 False Some 60000 100 None fresh_world)) 0) =
      None
   \<and> \<not> owner_iff_held (mutexes (state_of (TimeWait True 1 \<lparr>CondVar_mu = 0\<rparr>
        \<lparr>tv_sec = 100, tv_usec = 0\<rparr> 2000 [] 2001 0 False Some 60000 100 None fresh_world)) 0)"
proof -
  let ?cv = "\<lparr>CondVar_mu = 0\<rparr>"
  let ?tv = "\<lparr>tv_sec = 100, tv_usec = 0\<rparr>"
  let ?tw = "TimeWait True 1 ?cv ?tv 2000 [] 2001 0 False Some 60000 100 None fresh_world"
  have self: "(1::nat) \<noteq> 0"
    by simp
  have cv: "CondVar_mu ?cv = 0"
    by simp
  note fresh = owner_iff_held_concrete(1)
  note locked = owner_iff_held_concrete(2)
  note contended = owner_iff_held_concrete(3)
  note held = locked_world_fields(1)
  have free: "Mutex_mu (mutexes fresh_world 0) = None"
    by (simp add: fresh_world_def fresh_mutex_def)
  have "Mutex_mu (mutexes (cond_release 0 (BeforeUnlock True 0 2000 [] 2001 locked_world)) 0) =
      None"
    by (simp add: asleep_fields)
  from other_thread_on_free [OF this] obtain woken
    where other: "other_thread (cond_release 0 (BeforeUnlock True 0 2000 [] 2001 locked_world)) =
        Some woken" "Mutex_mu (mutexes woken 0) = None"
    by blast
  have ns: "sint (ts_tv_nsec (TimeWait_ts 100 ?tv)) = 100000000"
    by (simp add: TimeWait_ts_def TimeWait_usec_def c_div_def c_mod_def Let_def
          signed_divide_int_def signed_modulo_int_def)
  note on_fresh = owner_iff_held_through_operations [OF self fresh cv,
      of 0 Some True 100 200 "[]" None 5000 2000 2001 ?tv False 100]
  note on_free = owner_iff_held_through_operations [OF self fresh cv,
      of 0 Some True 100 60000 "[]" None 5000 2000 2001 ?tv False 100]
  note on_contended = owner_iff_held_through_operations [OF self contended cv,
      of 0 holder_releases True 100 7000 "[]" None 5000 2000 2001 ?tv False 100]
  note on_locked = owner_iff_held_through_operations [OF self locked cv,
      of 0 other_thread True 100 60000 "[]" None 5000 2000 2001 ?tv False 100]
  have os1: "pthread_mutex_lock 0 Some 1 0 fresh_world =
      Returns 0 (update_mutex 0 (\<lambda>m. m\<lparr>Mutex_mu := Some 1\<rparr>) fresh_world)"
    by (simp add: pthread_mutex_lock_cases free)
  from on_fresh [THEN conjunct1, rule_format, OF os1, THEN conjunct2] obtain w1
    where r1: "Lock True 1 0 100 0 Some 200 [] None 5000 fresh_world = Returns () w1"
    by blast
  have a: "owner_iff_held (mutexes w1 0) \<and> Mutex_owner (mutexes w1 0) = 1"
    using on_fresh [THEN conjunct2, THEN conjunct1, rule_format, OF r1]
    by simp
  from holder_releases_contended obtain w0
    where rel: "holder_releases contended_world = Some w0" "Mutex_mu (mutexes w0 0) = None"
    by blast
  have os2: "pthread_mutex_lock 0 holder_releases 1 0 contended_world =
      Returns 0 (update_mutex 0 (\<lambda>m. m\<lparr>Mutex_mu := Some 1\<rparr>) w0)"
    by (simp add: pthread_mutex_lock_cases rel Mutex_mu_contended_world)
  from on_contended [THEN conjunct1, rule_format, OF os2, THEN conjunct2] obtain w2
    where r2: "Lock True 1 0 100 0 holder_releases 7000 [] None 5000 contended_world =
                 Returns () w2"
    by blast
  have b: "owner_iff_held (mutexes w2 0) \<and> Mutex_owner (mutexes w2 0) = 1"
    using on_contended [THEN conjunct2, THEN conjunct1, rule_format, OF r2]
    by simp
  obtain w3 where r3: "Unlock True 1 0 2000 [] 2001 0 locked_world = Returns () w3"
    by (simp add: Unlock_unfold Let_def held)
  have c: "owner_iff_held (mutexes w3 0) \<and> Mutex_owner (mutexes w3 0) = 0"
    using on_locked [THEN conjunct2, THEN conjunct2, THEN conjunct2, THEN conjunct2, THEN conjunct2, THEN conjunct2, THEN conjunct2, THEN conjunct2, THEN conjunct1, rule_format, OF r3]
    by simp
  obtain w4 where r4: "Wait True 1 ?cv 2000 [] 2001 0 other_thread 60000 None locked_world =
      Returns () w4"
    by (simp add: Wait_unfold Let_def held other asleep_fields)
  have d: "owner_iff_held (mutexes w4 0) \<and> Mutex_owner (mutexes w4 0) = 1"
    using on_locked [THEN conjunct2, THEN conjunct2, THEN conjunct2, THEN conjunct2, THEN conjunct2, THEN conjunct2, THEN conjunct2, THEN conjunct2, THEN conjunct2, THEN conjunct2, THEN conjunct2, THEN conjunct2, THEN conjunct2, THEN conjunct1, rule_format, OF r4]
    by simp
  obtain w5 where r5: "TimeWait True 1 ?cv ?tv 2000 [] 2001 0 False other_thread 60000 100 None
      locked_world = Returns False w5"
    by (simp add: TimeWait_unfold Let_def held other asleep_fields ns)
  have e: "owner_iff_held (mutexes w5 0) \<and> Mutex_owner (mutexes w5 0) = 1"
    using on_locked [THEN conjunct2, THEN conjunct2, THEN conjunct2, THEN conjunct2, THEN conjunct2, THEN conjunct2, THEN conjunct2, THEN conjunct2, THEN conjunct2, THEN conjunct2, THEN conjunct2, THEN conjunct2, THEN conjunct2, THEN conjunct2, THEN conjunct2, THEN conjunct1, THEN mp, OF held, rule_format, OF r5]
    by simp
  have nh: "Mutex_mu (mutexes fresh_world 0) \<noteq> Some 1"
    by (simp add: free)
  note broken = on_free [THEN conjunct2, THEN conjunct2, THEN conjunct2, THEN conjunct2, THEN conjunct2, THEN conjunct2, THEN conjunct2, THEN conjunct2, THEN conjunct2, THEN conjunct2, THEN conjunct2, THEN conjunct2, THEN conjunct2, THEN conjunct2, THEN conjunct2, THEN conjunct2, THEN conjunct2, THEN mp, OF nh]
  have f: "?tw = Returns False
        (AfterLock True 1 0 60000 None (Mutex_msg_threshold (mutexes fresh_world 0))
           (BeforeUnlock True 0 2000 [] 2001 fresh_world))"
    by (rule broken [THEN conjunct1])
  have g: "Mutex_owner (mutexes (state_of ?tw) 0) = 1"
    by (rule broken [THEN conjunct2, THEN conjunct1])
  have h: "Mutex_mu (mutexes (state_of ?tw) 0) = None"
    using broken [THEN conjunct2, THEN conjunct2, THEN conjunct1] by (simp only: free)
  have i: "\<not> owner_iff_held (mutexes (state_of ?tw) 0)"
    by (rule broken [THEN conjunct2, THEN conjunct2, THEN conjunct2])
  from r1 a have A: "\<exists>w'. Lock True 1 0 100 0 Some 200 [] None 5000 fresh_world = Returns () w'
         \<and> owner_iff_held (mutexes w' 0) \<and> Mutex_owner (mutexes w' 0) = 1"
    by blast
  from r2 b have B: "\<exists>w'. Lock True 1 0 100 0 holder_releases 7000 [] None 5000 contended_world =
              Returns () w'
         \<and> owner_iff_held (mutexes w' 0) \<and> Mutex_owner (mutexes w' 0) = 1"
    by blast
  from r3 c have C: "\<exists>w'. Unlock True 1 0 2000 [] 2001 0 locked_world = Returns () w'
         \<and> owner_iff_held (mutexes w' 0) \<and> Mutex_owner (mutexes w' 0) = 0"
    by blast
  from r4 d have D: "\<exists>w'. Wait True 1 ?cv 2000 [] 2001 0 other_thread 60000 None locked_world =
              Returns () w'
         \<and> owner_iff_held (mutexes w' 0) \<and> Mutex_owner (mutexes w' 0) = 1"
    by blast
  from r5 e have E: "\<exists>w'. TimeWait True 1 ?cv ?tv 2000 [] 2001 0 False
              other_thread 60000 100 None locked_world = Returns False w'
         \<and> owner_iff_held (mutexes w' 0) \<and> Mutex_owner (mutexes w' 0) = 1"
    by blast
  show ?thesis
    by (intro conjI self fresh locked contended held A B C D E free f g h i)
qed

end
